theory Spec2Isabelle
  imports Complex_Main
begin

section \<open>Python values, exceptions and library calls\<close>

text \<open>
  A Python float is a real number, or NaN where pandas produces one from missing data
  (\<open>None\<close>). An exception is a value; a call that can raise returns \<open>exc + 'a\<close>.
  Library calls whose code is not the repository's (date parsing, the fitted scaler, the
  fitted estimators) are arguments of the model, so every theorem holds for each of them.
\<close>

type_synonym pyfloat = "real option"

type_synonym fvec = "pyfloat list"

text \<open>
  A float as a caller can send it (JSON \<^verbatim>\<open>Infinity\<close>, \<^verbatim>\<open>1e999\<close>, \<^verbatim>\<open>NaN\<close> included).
\<close>

datatype pynum = Num real | PlusInf | MinusInf | NotANumber

datatype exc =
    ValueError string
  | KeyError string
  | TypeError string
  | AttributeError string
  | OverflowError string
  | RuntimeError string

fun str_exc :: "exc \<Rightarrow> string" where
  "str_exc (ValueError m) = m"
| "str_exc (KeyError k) = [CHR 0x27] @ k @ [CHR 0x27]"
| "str_exc (TypeError m) = m"
| "str_exc (AttributeError m) = m"
| "str_exc (OverflowError m) = m"
| "str_exc (RuntimeError m) = m"

definition bind :: "exc + 'a \<Rightarrow> ('a \<Rightarrow> exc + 'b) \<Rightarrow> exc + 'b" where
  "bind r f = (case r of Inl e \<Rightarrow> Inl e | Inr v \<Rightarrow> f v)"

fun traverse :: "('a \<Rightarrow> exc + 'b) \<Rightarrow> 'a list \<Rightarrow> exc + 'b list" where
  "traverse f [] = Inr []"
| "traverse f (x # xs) =
     (case f x of
        Inl e \<Rightarrow> Inl e
      | Inr y \<Rightarrow> (case traverse f xs of Inl e \<Rightarrow> Inl e | Inr ys \<Rightarrow> Inr (y # ys)))"

text \<open>\<^verbatim>\<open>except Exception as e: raise ValueError(f"<prefix>{str(e)}")\<close>\<close>

definition reraise :: "(string \<Rightarrow> exc) \<Rightarrow> string \<Rightarrow> exc + 'a \<Rightarrow> exc + 'a" where
  "reraise mk prefix r = (case r of Inl e \<Rightarrow> Inl (mk (prefix @ str_exc e)) | Inr v \<Rightarrow> Inr v)"

text \<open>A dict key: absent, present with \<open>None\<close>, or present with a value.\<close>

datatype 'a field = Absent | Null | Val 'a

subsection \<open>Dates\<close>

text \<open>
  A datetime is a count of microseconds; \<open>t div usec_per_day\<close> is its proleptic Gregorian
  ordinal (day 1 is 0001-01-01), as in Python's \<^verbatim>\<open>datetime\<close>. Time zones are not
  modelled.
\<close>

type_synonym datetime = int

definition usec_per_day :: int where
  "usec_per_day = 86400000000"

definition timedelta :: "int \<Rightarrow> int" where
  "timedelta days = days * usec_per_day"

text \<open>\<^verbatim>\<open>(a - b).days\<close>: the floor of the difference in days.\<close>

definition delta_days :: "datetime \<Rightarrow> datetime \<Rightarrow> int" where
  "delta_days a b = (a - b) div usec_per_day"

definition DAYS_IN_MONTH :: "int list" where
  "DAYS_IN_MONTH = [-1, 31, 28, 31, 30, 31, 30, 31, 31, 30, 31, 30, 31]"

definition DAYS_BEFORE_MONTH :: "int list" where
  "DAYS_BEFORE_MONTH = [-1, 0, 31, 59, 90, 120, 151, 181, 212, 243, 273, 304, 334]"

definition is_leap :: "int \<Rightarrow> bool" where
  "is_leap year = (year mod 4 = 0 \<and> (year mod 400 = 0 \<or> year mod 100 \<noteq> 0))"

definition days_before_year :: "int \<Rightarrow> int" where
  "days_before_year year =
     (let y = year - 1 in y * 365 + y div 4 - y div 100 + y div 400)"

definition days_before_month :: "int \<Rightarrow> int \<Rightarrow> int" where
  "days_before_month year month =
     DAYS_BEFORE_MONTH ! nat month + (if month > 2 \<and> is_leap year then 1 else 0)"

definition ymd2ord :: "int \<Rightarrow> int \<Rightarrow> int \<Rightarrow> int" where
  "ymd2ord year month day = days_before_year year + days_before_month year month + day"

definition ord2ymd :: "int \<Rightarrow> int \<times> int \<times> int" where
  "ord2ymd n0 =
     (let n = n0 - 1;
          n400 = n div 146097; n = n mod 146097;
          n100 = n div 36524; n = n mod 36524;
          n4 = n div 1461; n = n mod 1461;
          n1 = n div 365; n = n mod 365;
          year = n400 * 400 + 1 + n100 * 100 + n4 * 4 + n1
      in if n1 = 4 \<or> n100 = 4 then (year - 1, 12, 31)
         else
           let leapyear = (n1 = 3 \<and> (n100 = 3 \<or> n4 \<noteq> 24));
               month = (n + 50) div 32;
               preceding = DAYS_BEFORE_MONTH ! nat month
                             + (if month > 2 \<and> leapyear then 1 else 0)
           in if preceding > n
              then (let month' = month - 1;
                        preceding' = preceding - (DAYS_IN_MONTH ! nat month'
                                       + (if month' = 2 \<and> leapyear then 1 else 0))
                    in (year, month', n - preceding' + 1))
              else (year, month, n - preceding + 1))"

definition month_of :: "datetime \<Rightarrow> int" where
  "month_of t = fst (snd (ord2ymd (t div usec_per_day)))"

text \<open>Midnight of a calendar date.\<close>

definition mk_date :: "int \<Rightarrow> int \<Rightarrow> int \<Rightarrow> datetime" where
  "mk_date year month day = ymd2ord year month day * usec_per_day"

text \<open>\<^verbatim>\<open>s.replace('Z', '+00:00')\<close>\<close>

definition replace_Z :: "string \<Rightarrow> string" where
  "replace_Z s = concat (map (\<lambda>c. if c = CHR ''Z'' then ''+00:00'' else [c]) s)"

record pylib =
  to_datetime :: "string \<Rightarrow> exc + datetime"
  fromisoformat :: "string \<Rightarrow> exc + datetime"
  int_of_str :: "string \<Rightarrow> exc + int"
  float_of_str :: "string \<Rightarrow> exc + pynum"
  float_repr :: "pynum \<Rightarrow> string"

subsection \<open>Numeric helpers\<close>

text \<open>pandas \<^verbatim>\<open>Series.mean()\<close> and \<^verbatim>\<open>Series.std()\<close> (sample deviation, NaN skipped).\<close>

definition dropna :: "pyfloat list \<Rightarrow> real list" where
  "dropna xs = List.map_filter (\<lambda>x. x) xs"

definition series_mean :: "pyfloat list \<Rightarrow> pyfloat" where
  "series_mean xs =
     (let vs = dropna xs
      in if vs = [] then None else Some (sum_list vs / real (length vs)))"

definition series_std :: "pyfloat list \<Rightarrow> pyfloat" where
  "series_std xs =
     (let vs = dropna xs; n = length vs
      in if n < 2 then None
         else let m = sum_list vs / real n
              in Some (sqrt (sum_list (map (\<lambda>v. (v - m) ^ 2) vs) / real (n - 1))))"

text \<open>Python's \<^verbatim>\<open>max(a, x)\<close> for a number \<open>a\<close>: \<open>x\<close> wins only if \<open>x > a\<close>, so NaN loses.\<close>

definition py_max :: "real \<Rightarrow> pyfloat \<Rightarrow> real" where
  "py_max a x = (case x of None \<Rightarrow> a | Some v \<Rightarrow> if v > a then v else a)"

text \<open>Python's \<^verbatim>\<open>round(x)\<close> to an integer: halves go to the even neighbour.\<close>

definition py_round :: "real \<Rightarrow> int" where
  "py_round x =
     (let f = \<lfloor>x\<rfloor>; d = x - of_int f
      in if d < 1 / 2 then f else if d > 1 / 2 then f + 1 else if even f then f else f + 1)"

text \<open>\<^verbatim>\<open>np.clip(x, 0.0, 1.0)\<close>\<close>

definition clip01 :: "real \<Rightarrow> real" where
  "clip01 x = min 1 (max 0 x)"

section \<open>Cycle prediction model\<close>

text \<open>Source: \<^verbatim>\<open>src/ml/src/models/cycle_prediction_model.py\<close>.\<close>

text \<open>
  A cycle record as the predictor reads it: the date string, and the two lengths, each
  absent from the dict, \<open>None\<close>, or an integer.
\<close>

record cycle =
  start_date :: string
  cycle_length :: "int field"
  period_length :: "int field"

text \<open>A row of the processed DataFrame; a NaN cycle length is \<open>None\<close>.\<close>

record cycle_row =
  row_start_date :: datetime
  row_cycle_length :: pyfloat
  row_period_length :: real

text \<open>\<^verbatim>\<open>df['start_date'].diff().dt.days\<close> without its first (NaN) entry.\<close>

fun diff_days :: "datetime list \<Rightarrow> int list" where
  "diff_days (a # b # ts) = delta_days b a # diff_days (b # ts)"
| "diff_days ts = []"

text \<open>
  The \<^verbatim>\<open>cycle_length\<close> column after \<^verbatim>\<open>process_cycle_data\<close>. The test
  \<^verbatim>\<open>'cycle_length' not in df.columns\<close> holds when no record has the key; only then are
  the lengths derived from the dates. Otherwise a record without a value leaves NaN.
\<close>

definition cycle_length_column :: "(datetime \<times> cycle) list \<Rightarrow> pyfloat list" where
  "cycle_length_column sorted_cycles =
     (if list_all (\<lambda>(t, c). cycle_length c = Absent) sorted_cycles
      then (case sorted_cycles of
              [] \<Rightarrow> []
            | _ # _ \<Rightarrow> Some 28 # map (\<lambda>d. Some (of_int d)) (diff_days (map fst sorted_cycles)))
      else map (\<lambda>(t, c). case cycle_length c of Val v \<Rightarrow> Some (of_int v) | _ \<Rightarrow> None)
             sorted_cycles)"

text \<open>The \<^verbatim>\<open>period_length\<close> column: 5 wherever a record has no value.\<close>

definition period_length_column :: "(datetime \<times> cycle) list \<Rightarrow> real list" where
  "period_length_column sorted_cycles =
     (if list_all (\<lambda>(t, c). period_length c = Absent) sorted_cycles
      then map (\<lambda>_. 5) sorted_cycles
      else map (\<lambda>(t, c). case period_length c of Val v \<Rightarrow> of_int v | _ \<Rightarrow> 5) sorted_cycles)"

fun make_rows :: "datetime list \<Rightarrow> pyfloat list \<Rightarrow> real list \<Rightarrow> cycle_row list" where
  "make_rows (t # ts) (c # cs) (p # ps) =
     \<lparr>row_start_date = t, row_cycle_length = c, row_period_length = p\<rparr> # make_rows ts cs ps"
| "make_rows _ _ _ = []"

text \<open>
  \<^verbatim>\<open>process_cycle_data\<close>: parse the dates, sort ascending by date (modelled as a stable
  sort), derive \<^verbatim>\<open>cycle_length\<close> only when the column does not exist at all, fill
  \<^verbatim>\<open>period_length\<close>.
\<close>

definition process_cycle_data :: "pylib \<Rightarrow> cycle list \<Rightarrow> exc + cycle_row list" where
  "process_cycle_data lib cycles =
     reraise ValueError ''Cycle data processing failed: ''
       (if cycles = [] then Inl (ValueError ''No cycle data provided'')
        else bind (traverse (\<lambda>c. to_datetime lib (start_date c)) cycles) (\<lambda>dates.
          let sorted_cycles = sort_key fst (zip dates cycles)
          in Inr (make_rows (map fst sorted_cycles)
                    (cycle_length_column sorted_cycles)
                    (period_length_column sorted_cycles))))"

definition get_season :: "datetime \<Rightarrow> int" where
  "get_season date =
     (let month = month_of date
      in if month \<in> set [12, 1, 2] then 0
         else if month \<in> set [3, 4, 5] then 1
         else if month \<in> set [6, 7, 8] then 2
         else 3)"

type_synonym features = "(string \<times> pyfloat) list"

definition regularity :: "pyfloat \<Rightarrow> real" where
  "regularity cycle_std = py_max 0 (map_option (\<lambda>s. 1 - s / 7) cycle_std)"

text \<open>
  \<^verbatim>\<open>CyclePredictionModel.engineer_features\<close>; \<open>now\<close> is what \<^verbatim>\<open>datetime.now()\<close>
  returns. The result is the dict, in insertion order.
\<close>

definition cycle_engineer_features :: "pylib \<Rightarrow> datetime \<Rightarrow> cycle list \<Rightarrow> exc + features" where
  "cycle_engineer_features lib now cycles =
     reraise ValueError ''Feature engineering failed: ''
       (bind (process_cycle_data lib cycles) (\<lambda>df.
          if length df < 2
          then Inr [(''avg_cycle_length'', Some 28),
                    (''cycle_regularity'', Some (1 / 2)),
                    (''avg_period_length'', Some 5),
                    (''trend_slope'', Some 0),
                    (''recent_avg'', Some 28),
                    (''season'', Some (of_int (get_season now))),
                    (''cycles_count'', Some (of_nat (length df)))]
          else
            let lengths = map row_cycle_length df;
                avg_cycle_length = series_mean lengths;
                avg_period_length = series_mean (map (\<lambda>r. Some (row_period_length r)) df);
                cycle_std = series_std lengths;
                cycle_regularity = regularity cycle_std;
                recent_cycles =
                  (if length df \<ge> 4 then series_mean (drop (length df - 3) lengths)
                   else avg_cycle_length);
                trend_slope =
                  (if length df \<ge> 4
                   then (case (recent_cycles, series_mean (take (length df - 3) lengths)) of
                           (Some r, Some older) \<Rightarrow> Some ((r - older) / of_nat (length df))
                         | _ \<Rightarrow> None)
                   else Some 0);
                last_date = row_start_date (last df);
                season = get_season last_date;
                days_since_last = delta_days now last_date
            in Inr [(''avg_cycle_length'', avg_cycle_length),
                    (''cycle_regularity'', Some cycle_regularity),
                    (''avg_period_length'', avg_period_length),
                    (''trend_slope'', trend_slope),
                    (''recent_avg'', recent_cycles),
                    (''season'', Some (of_int season)),
                    (''cycles_count'', Some (of_nat (length df))),
                    (''days_since_last'', Some (of_int days_since_last)),
                    (''cycle_std'', cycle_std)]))"

text \<open>\<^verbatim>\<open>features[key]\<close>\<close>

definition getitem :: "features \<Rightarrow> string \<Rightarrow> exc + pyfloat" where
  "getitem d k = (case map_of d k of None \<Rightarrow> Inl (KeyError k) | Some v \<Rightarrow> Inr v)"

text \<open>Python's \<^verbatim>\<open>max(xs, key=...)\<close> on keyed elements: the first of the maximal ones.\<close>

fun max_by_key :: "('a \<times> datetime) \<Rightarrow> ('a \<times> datetime) list \<Rightarrow> 'a" where
  "max_by_key best [] = fst best"
| "max_by_key best (x # xs) = max_by_key (if snd x > snd best then x else best) xs"

record ensemble =
  random_forest :: "fvec \<Rightarrow> exc + real"

record cycle_ensemble = ensemble +
  linear_regression :: "fvec \<Rightarrow> exc + real"

text \<open>The instance state of \<^verbatim>\<open>CyclePredictionModel\<close> and \<^verbatim>\<open>PCOSRiskModel\<close>.\<close>

record 'm predictor =
  model :: "'m option"
  scaler :: "fvec \<Rightarrow> exc + fvec"
  feature_columns :: "string list"
  is_trained :: bool
  model_version :: string

record phase =
  phase_start :: datetime
  phase_end :: datetime

record cycle_prediction =
  predicted_start_date :: datetime
  predicted_cycle_length :: int
  confidence :: pyfloat
  fertile_window_start :: datetime
  fertile_window_end :: datetime
  fertile_window_peak :: datetime
  menstrual :: phase
  follicular :: phase
  ovulation :: phase
  luteal :: phase
  prediction_model_version :: string

definition predict_cycle_phases ::
  "datetime \<Rightarrow> int \<Rightarrow> phase \<times> phase \<times> phase \<times> phase" where
  "predict_cycle_phases start len =
     (let ovulation_day = len - 14
      in (\<lparr>phase_start = start, phase_end = start + timedelta 5\<rparr>,
          \<lparr>phase_start = start + timedelta 6, phase_end = start + timedelta 13\<rparr>,
          \<lparr>phase_start = start + timedelta (ovulation_day - 1),
           phase_end = start + timedelta (ovulation_day + 1)\<rparr>,
          \<lparr>phase_start = start + timedelta (ovulation_day + 2),
           phase_end = start + timedelta len\<rparr>))"

definition feature_names :: "string list" where
  "feature_names = [''avg_cycle_length'', ''cycle_regularity'', ''avg_period_length'',
     ''trend_slope'', ''recent_avg'', ''season'', ''cycles_count'', ''days_since_last'',
     ''cycle_std'']"

text \<open>\<^verbatim>\<open>last_cycle.get('cycle_length', 28)\<close> followed by \<^verbatim>\<open>int(...)\<close>\<close>

definition last_length_of :: "cycle \<Rightarrow> exc + int" where
  "last_length_of c =
     (case cycle_length c of
        Absent \<Rightarrow> Inr 28
      | Null \<Rightarrow> Inl (TypeError ''int() argument must be a string, a bytes-like object or a real number, not 'NoneType' '')
      | Val v \<Rightarrow> Inr v)"

text \<open>
  \<^verbatim>\<open>CyclePredictionModel.predict\<close>. The \<^verbatim>\<open>timestamp\<close> entry of the result (the wall
  clock) is left out.
\<close>

definition cycle_predict :: "pylib \<Rightarrow> datetime \<Rightarrow> cycle_ensemble predictor \<Rightarrow> cycle list
    \<Rightarrow> exc + cycle_prediction" where
  "cycle_predict lib now self cycles =
     reraise RuntimeError ''Prediction failed: ''
       (if \<not> is_trained self then Inl (ValueError ''Model is not trained'')
        else case model self of
          None \<Rightarrow> Inl (ValueError ''Model is not trained'')
        | Some m \<Rightarrow>
          bind (cycle_engineer_features lib now cycles) (\<lambda>features.
          bind (traverse (getitem features) feature_names) (\<lambda>feature_array.
          bind (scaler self feature_array) (\<lambda>X_scaled.
          bind (random_forest m X_scaled) (\<lambda>rf_pred.
          bind (linear_regression m X_scaled) (\<lambda>lr_pred.
          let predicted_length = max 21 (min 45 (7 / 10 * rf_pred + 3 / 10 * lr_pred))
          in
          bind (traverse (\<lambda>x. bind (fromisoformat lib (replace_Z (start_date x)))
                                 (\<lambda>t. Inr (x, t))) cycles) (\<lambda>keyed.
          bind (case keyed of
                  [] \<Rightarrow> Inl (ValueError ''max() arg is an empty sequence'')
                | k # ks \<Rightarrow> Inr (max_by_key k ks)) (\<lambda>last_cycle.
          bind (fromisoformat lib (replace_Z (start_date last_cycle))) (\<lambda>last_start.
          bind (last_length_of last_cycle) (\<lambda>last_length.
          let predicted_start = last_start + timedelta last_length;
              model_agreement = 1 - \<bar>rf_pred - lr_pred\<bar> / max (max rf_pred lr_pred) 1
          in
          bind (getitem features ''cycle_regularity'') (\<lambda>regularity_confidence.
          let confidence = map_option (\<lambda>r. (model_agreement + r) / 2) regularity_confidence;
              ovulation_date = predicted_start + timedelta (\<lfloor>predicted_length\<rfloor> - 14);
              fertile_start = ovulation_date - timedelta 5;
              fertile_end = ovulation_date + timedelta 1;
              phases = predict_cycle_phases predicted_start \<lfloor>predicted_length\<rfloor>
          in Inr \<lparr>predicted_start_date = predicted_start,
                  predicted_cycle_length = py_round predicted_length,
                  confidence = map_option clip01 confidence,
                  fertile_window_start = fertile_start,
                  fertile_window_end = fertile_end,
                  fertile_window_peak = ovulation_date,
                  menstrual = fst phases,
                  follicular = fst (snd phases),
                  ovulation = fst (snd (snd phases)),
                  luteal = snd (snd (snd phases)),
                  prediction_model_version = model_version self\<rparr>)))))))))))"

section \<open>PCOS risk model\<close>

text \<open>
  Source: \<^verbatim>\<open>src/ml/src/models/pcos_risk_model.py\<close>. A DataFrame is its columns in order,
  each numeric (NaN is \<open>None\<close>) or boolean; all columns have one length. The scaler and
  the estimators act row by row, as scikit-learn's do.
\<close>

datatype column = NumCol "pyfloat list" | BoolCol "bool list"

type_synonym dataframe = "(string \<times> column) list"

definition nums :: "column \<Rightarrow> pyfloat list" where
  "nums col = (case col of NumCol xs \<Rightarrow> xs | BoolCol bs \<Rightarrow> map (\<lambda>b. Some (if b then 1 else 0)) bs)"

definition nrows :: "dataframe \<Rightarrow> nat" where
  "nrows df = (case df of [] \<Rightarrow> 0 | (_, col) # _ \<Rightarrow> length (nums col))"

text \<open>\<^verbatim>\<open>data[name]\<close>\<close>

definition df_get :: "dataframe \<Rightarrow> string \<Rightarrow> exc + column" where
  "df_get df name = (case map_of df name of None \<Rightarrow> Inl (KeyError name) | Some col \<Rightarrow> Inr col)"

text \<open>\<^verbatim>\<open>data[name] = col\<close>: overwrite in place, or append a new column.\<close>

definition df_set :: "dataframe \<Rightarrow> string \<Rightarrow> column \<Rightarrow> dataframe" where
  "df_set df name col =
     (if name \<in> set (map fst df)
      then map (\<lambda>(k, c). if k = name then (k, col) else (k, c)) df
      else df @ [(name, col)])"

text \<open>
  \<^verbatim>\<open>pd.cut(x, bins=..., labels=...)\<close>: intervals open on the left and closed on the right;
  a value in none of them, or NaN, gives NaN.
\<close>

fun cut :: "real list \<Rightarrow> real list \<Rightarrow> real \<Rightarrow> pyfloat" where
  "cut (lo # hi # bins) (l # labels) x =
     (if lo < x \<and> x \<le> hi then Some l else cut (hi # bins) labels x)"
| "cut _ _ x = None"

definition pd_cut :: "real list \<Rightarrow> real list \<Rightarrow> pyfloat list \<Rightarrow> pyfloat list" where
  "pd_cut bins labels xs = map (\<lambda>x. case x of None \<Rightarrow> None | Some v \<Rightarrow> cut bins labels v) xs"

text \<open>Comparisons of a possibly-NaN value: NaN compares false.\<close>

definition lt :: "pyfloat \<Rightarrow> real \<Rightarrow> bool" where
  "lt x a = (case x of None \<Rightarrow> False | Some v \<Rightarrow> v < a)"

definition gt :: "pyfloat \<Rightarrow> real \<Rightarrow> bool" where
  "gt x a = (case x of None \<Rightarrow> False | Some v \<Rightarrow> v > a)"

definition astype_int :: "bool \<Rightarrow> real" where
  "astype_int b = (if b then 1 else 0)"

record pcos_ensemble = ensemble +
  gradient_boosting :: "fvec \<Rightarrow> exc + real"

definition new_features :: "string list" where
  "new_features = [''bmi_category'', ''cycle_irregular'', ''period_category'',
     ''lifestyle_risk'', ''age_group'']"

fun add3 :: "real list \<Rightarrow> real list \<Rightarrow> real list \<Rightarrow> real list" where
  "add3 (a # as) (b # bs) (c # cs) = (a + b + c) # add3 as bs cs"
| "add3 _ _ _ = []"

text \<open>
  \<^verbatim>\<open>PCOSRiskModel.engineer_features\<close>: returns the engineered frame and the instance
  with \<^verbatim>\<open>self.feature_columns\<close> reassigned; on any exception (here: a missing column)
  the input frame is returned and the instance is untouched.
\<close>

definition pcos_engineer_features ::
  "pcos_ensemble predictor \<Rightarrow> dataframe \<Rightarrow> dataframe \<times> pcos_ensemble predictor" where
  "pcos_engineer_features self data =
     (case
        bind (df_get data ''bmi'') (\<lambda>bmi.
        let e1 = df_set data ''bmi_category''
                   (NumCol (pd_cut [0, 37 / 2, 25, 30, 100] [0, 1, 2, 3] (nums bmi)))
        in
        bind (df_get e1 ''cycle_length'') (\<lambda>cl.
        let e2 = df_set e1 ''cycle_irregular''
                   (NumCol (map (\<lambda>x. Some (astype_int (lt x 21 \<or> gt x 35))) (nums cl)))
        in
        bind (df_get e2 ''period_length'') (\<lambda>pl.
        let e3 = df_set e2 ''period_category''
                   (NumCol (pd_cut [0, 3, 7, 15] [0, 1, 2] (nums pl)))
        in
        bind (df_get e3 ''exercise_frequency'') (\<lambda>ex.
        bind (df_get e3 ''stress_level'') (\<lambda>st.
        bind (df_get e3 ''sleep_quality'') (\<lambda>sl.
        let e4 = df_set e3 ''lifestyle_risk''
                   (NumCol (map Some (add3
                      (map (\<lambda>x. astype_int (lt x 2)) (nums ex))
                      (map (\<lambda>x. astype_int (gt x 3)) (nums st))
                      (map (\<lambda>x. astype_int (lt x 3)) (nums sl)))))
        in
        bind (df_get e4 ''age'') (\<lambda>age.
        let e5 = df_set e4 ''age_group''
                   (NumCol (pd_cut [0, 18, 25, 35, 100] [0, 1, 2, 3] (nums age)))
        in Inr e5)))))))
      of
        Inl e \<Rightarrow> (data, self)
      | Inr engineered_data \<Rightarrow>
          (engineered_data,
           self\<lparr>feature_columns := feature_columns self @ new_features\<rparr>))"

text \<open>\<^verbatim>\<open>Series.median()\<close>, NaN skipped.\<close>

definition median :: "pyfloat list \<Rightarrow> pyfloat" where
  "median xs =
     (let vs = sort (dropna xs); n = length vs
      in if n = 0 then None
         else if odd n then Some (vs ! (n div 2))
         else Some ((vs ! (n div 2 - 1) + vs ! (n div 2)) / 2))"

text \<open>\<^verbatim>\<open>fillna(median)\<close> on one column, then the cast of a boolean column to 0/1.\<close>

definition fill_and_cast :: "column \<Rightarrow> pyfloat list" where
  "fill_and_cast col =
     (case col of
        NumCol xs \<Rightarrow> map (\<lambda>x. case x of None \<Rightarrow> median xs | Some v \<Rightarrow> Some v) xs
      | BoolCol bs \<Rightarrow> map (\<lambda>b. Some (astype_int b)) bs)"

text \<open>\<^verbatim>\<open>.values\<close>: the rows of the frame.\<close>

definition rows_of :: "nat \<Rightarrow> pyfloat list list \<Rightarrow> fvec list" where
  "rows_of n cols = map (\<lambda>i. map (\<lambda>c. c ! i) cols) [0..<n]"

fun join_quoted :: "string list \<Rightarrow> string" where
  "join_quoted [] = []"
| "join_quoted [x] = [CHR 0x27] @ x @ [CHR 0x27]"
| "join_quoted (x # y # ys) = [CHR 0x27] @ x @ [CHR 0x27] @ '', '' @ join_quoted (y # ys)"

text \<open>
  \<^verbatim>\<open>PCOSRiskModel.preprocess_data\<close>. The message lists the missing columns in the
  order of the feature-column list (Python prints a set, in no fixed order).
\<close>

definition preprocess_data :: "pcos_ensemble predictor \<Rightarrow> dataframe \<Rightarrow> exc + fvec list" where
  "preprocess_data self data =
     reraise ValueError ''Data preprocessing failed: ''
       (let missing_cols = filter (\<lambda>c. c \<notin> set (map fst data)) (remdups (feature_columns self))
        in if missing_cols \<noteq> []
           then Inl (ValueError (''Missing required columns: {'' @ join_quoted missing_cols @ ''}''))
           else bind (traverse (df_get data) (feature_columns self)) (\<lambda>processed_data.
                  Inr (rows_of (nrows data) (map fill_and_cast processed_data))))"

definition PCOS_RISK_LEVELS :: "(string \<times> real \<times> real) list" where
  "PCOS_RISK_LEVELS = [(''low'', 0, 3 / 10), (''moderate'', 3 / 10, 6 / 10),
     (''high'', 6 / 10, 8 / 10), (''very_high'', 8 / 10, 1)]"

fun first_level :: "(string \<times> real \<times> real) list \<Rightarrow> real \<Rightarrow> string" where
  "first_level [] risk_score = ''very_high''"
| "first_level ((level, min_score, max_score) # rest) risk_score =
     (if min_score \<le> risk_score \<and> risk_score < max_score then level
      else first_level rest risk_score)"

definition get_risk_level :: "real \<Rightarrow> string" where
  "get_risk_level risk_score = first_level PCOS_RISK_LEVELS risk_score"

definition calculate_confidence :: "real \<Rightarrow> real \<Rightarrow> real" where
  "calculate_confidence rf_proba gb_proba =
     (let agreement = 1 - \<bar>rf_proba - gb_proba\<bar>;
          certainty = \<bar>(rf_proba + gb_proba) / 2 - 1 / 2\<bar> * 2;
          confidence = (agreement + certainty) / 2
      in clip01 confidence)"

text \<open>\<^verbatim>\<open>X.iloc[i]\<close> and \<^verbatim>\<open>sample.get(key, default)\<close>\<close>

definition iloc :: "dataframe \<Rightarrow> nat \<Rightarrow> (string \<times> pyfloat) list" where
  "iloc df i = map (\<lambda>(k, col). (k, nums col ! i)) df"

definition sample_get :: "(string \<times> pyfloat) list \<Rightarrow> string \<Rightarrow> real \<Rightarrow> pyfloat" where
  "sample_get sample k d = (case map_of sample k of None \<Rightarrow> Some d | Some v \<Rightarrow> v)"

definition get_risk_factors :: "(string \<times> pyfloat) list \<Rightarrow> string list" where
  "get_risk_factors sample =
     (if gt (sample_get sample ''bmi'' 0) 25 then [''elevated_bmi''] else [])
     @ (if gt (sample_get sample ''cycle_length'' 28) 35 \<or> lt (sample_get sample ''cycle_length'' 28) 21
        then [''irregular_cycles''] else [])
     @ (if sample_get sample ''family_history'' 0 = Some 1 then [''family_history''] else [])
     @ (if lt (sample_get sample ''exercise_frequency'' 3) 2 then [''low_exercise''] else [])
     @ (if gt (sample_get sample ''stress_level'' 2) 3 then [''high_stress''] else [])
     @ (if lt (sample_get sample ''sleep_quality'' 3) 3 then [''poor_sleep''] else [])"

record pcos_item =
  risk_score :: real
  risk_level :: string
  risk_confidence :: real

record pcos_result = pcos_item +
  factors :: "string list"
  result_model_version :: string

datatype pcos_output = Single pcos_result | Batch "pcos_item list"

definition risk_scores_of :: "real list \<Rightarrow> real list \<Rightarrow> real list" where
  "risk_scores_of rf_proba gb_proba = map (\<lambda>(rf, gb). (rf + gb) / 2) (zip rf_proba gb_proba)"

text \<open>
  The tail of \<^verbatim>\<open>PCOSRiskModel.predict\<close>, after the two estimators have answered: one
  row gives the scalar result with its risk factors, any other number of rows the list
  of batch results. The \<^verbatim>\<open>timestamp\<close> entry of the result is left out.
\<close>

definition prediction_output ::
  "dataframe \<Rightarrow> string \<Rightarrow> real list \<Rightarrow> real list \<Rightarrow> pcos_output" where
  "prediction_output X_engineered version rf_proba gb_proba =
     (let risk_scores = risk_scores_of rf_proba gb_proba
      in if length risk_scores = 1
         then Single
                \<lparr>risk_score = risk_scores ! 0,
                 risk_level = get_risk_level (risk_scores ! 0),
                 risk_confidence = calculate_confidence (rf_proba ! 0) (gb_proba ! 0),
                 factors = get_risk_factors (iloc X_engineered 0),
                 result_model_version = version\<rparr>
         else Batch (map (\<lambda>(i, score).
                \<lparr>risk_score = score,
                 risk_level = get_risk_level score,
                 risk_confidence = calculate_confidence (rf_proba ! i) (gb_proba ! i)\<rparr>)
                (enumerate 0 risk_scores)))"

text \<open>
  \<^verbatim>\<open>PCOSRiskModel.predict\<close>: the result or the exception, and the instance after the
  call.
\<close>

definition pcos_predict :: "pcos_ensemble predictor \<Rightarrow> dataframe
    \<Rightarrow> (exc + pcos_output) \<times> pcos_ensemble predictor" where
  "pcos_predict self X =
     (if \<not> is_trained self
      then (reraise RuntimeError ''Prediction failed: '' (Inl (ValueError ''Model is not trained'')), self)
      else case model self of
        None \<Rightarrow>
          (reraise RuntimeError ''Prediction failed: '' (Inl (ValueError ''Model is not trained'')), self)
      | Some m \<Rightarrow>
        let (X_engineered, self') = pcos_engineer_features self X
        in (reraise RuntimeError ''Prediction failed: ''
             (bind (preprocess_data self' X_engineered) (\<lambda>X_processed.
              bind (traverse (scaler self') X_processed) (\<lambda>X_scaled.
              bind (traverse (random_forest m) X_scaled) (\<lambda>rf_proba.
              bind (traverse (gradient_boosting m) X_scaled) (\<lambda>gb_proba.
              Inr (prediction_output X_engineered (model_version self') rf_proba gb_proba)))))),
            self'))"

text \<open>The predictions a result carries: score, level and confidence of each.\<close>

definition items_of :: "pcos_output \<Rightarrow> pcos_item list" where
  "items_of out =
     (case out of
        Single r \<Rightarrow> [\<lparr>risk_score = risk_score r, risk_level = risk_level r,
                       risk_confidence = risk_confidence r\<rparr>]
      | Batch items \<Rightarrow> items)"

definition FEATURE_COLUMNS_pcos_risk :: "string list" where
  "FEATURE_COLUMNS_pcos_risk = [''age'', ''bmi'', ''cycle_length'', ''period_length'',
     ''exercise_frequency'', ''stress_level'', ''sleep_quality'', ''family_history'',
     ''symptom_count'']"

section \<open>Input validation\<close>

text \<open>
  Source: \<^verbatim>\<open>src/ml/src/utils/validation_utils.py\<close>. A record is the dict the caller
  sent: keys and JSON-like values (\<open>POther\<close> is a list or a dict, given by its printed
  form). A validator returns its pair, or the exception that escapes it: each
  \<^verbatim>\<open>try\<close> catches the exception classes it names and no others.
\<close>

datatype pyval = PNone | PBool bool | PInt int | PFloat pynum | PStr string | POther string

type_synonym pydict = "(string \<times> pyval) list"

function str_nat :: "nat \<Rightarrow> string" where
  "str_nat n =
     (if n < 10 then [''0123456789'' ! n]
      else str_nat (n div 10) @ [''0123456789'' ! (n mod 10)])"
  by pat_completeness auto
termination
  by (relation "measure (\<lambda>n. n)") auto

declare str_nat.simps [simp del]

definition str_int :: "int \<Rightarrow> string" where
  "str_int i = (if i < 0 then ''-'' @ str_nat (nat (- i)) else str_nat (nat i))"

text \<open>Python's \<^verbatim>\<open>str(v)\<close>, as an f-string prints a value.\<close>

definition py_str :: "pylib \<Rightarrow> pyval \<Rightarrow> string" where
  "py_str lib v =
     (case v of
        PNone \<Rightarrow> ''None''
      | PBool b \<Rightarrow> (if b then ''True'' else ''False'')
      | PInt i \<Rightarrow> str_int i
      | PFloat x \<Rightarrow> float_repr lib x
      | PStr s \<Rightarrow> s
      | POther s \<Rightarrow> s)"

text \<open>
  \<^verbatim>\<open>int(v)\<close>: a float is truncated towards zero; NaN raises \<^verbatim>\<open>ValueError\<close> and an
  infinity raises \<^verbatim>\<open>OverflowError\<close>.
\<close>

definition py_int :: "pylib \<Rightarrow> pyval \<Rightarrow> exc + int" where
  "py_int lib v =
     (case v of
        PNone \<Rightarrow> Inl (TypeError ''int() argument must be a string, a bytes-like object or a real number'')
      | PBool b \<Rightarrow> Inr (if b then 1 else 0)
      | PInt i \<Rightarrow> Inr i
      | PFloat x \<Rightarrow>
          (case x of
             Num r \<Rightarrow> Inr (if r \<ge> 0 then \<lfloor>r\<rfloor> else \<lceil>r\<rceil>)
           | PlusInf \<Rightarrow> Inl (OverflowError ''cannot convert float infinity to integer'')
           | MinusInf \<Rightarrow> Inl (OverflowError ''cannot convert float infinity to integer'')
           | NotANumber \<Rightarrow> Inl (ValueError ''cannot convert float NaN to integer''))
      | PStr s \<Rightarrow> int_of_str lib s
      | POther _ \<Rightarrow> Inl (TypeError ''int() argument must be a string, a bytes-like object or a real number''))"

text \<open>
  \<^verbatim>\<open>float(v)\<close>: an integer that rounds beyond the largest double (from
  \<open>2^1024 - 2^970\<close> on, in absolute value) raises \<^verbatim>\<open>OverflowError\<close>. The rounding of a
  representable integer is not modelled.
\<close>

definition py_float :: "pylib \<Rightarrow> pyval \<Rightarrow> exc + pynum" where
  "py_float lib v =
     (case v of
        PNone \<Rightarrow> Inl (TypeError ''float() argument must be a string or a real number'')
      | PBool b \<Rightarrow> Inr (Num (if b then 1 else 0))
      | PInt i \<Rightarrow>
          if \<bar>i\<bar> \<ge> 2 ^ 1024 - 2 ^ 970
          then Inl (OverflowError ''int too large to convert to float'')
          else Inr (Num (of_int i))
      | PFloat x \<Rightarrow> Inr x
      | PStr s \<Rightarrow> float_of_str lib s
      | POther _ \<Rightarrow> Inl (TypeError ''float() argument must be a string or a real number''))"

text \<open>\<^verbatim>\<open>lo <= x <= hi\<close> for a float: false for NaN and the infinities.\<close>

definition between :: "real \<Rightarrow> real \<Rightarrow> pynum \<Rightarrow> bool" where
  "between lo hi x = (case x of Num r \<Rightarrow> lo \<le> r \<and> r \<le> hi | _ \<Rightarrow> False)"

text \<open>
  \<^verbatim>\<open>datetime.fromisoformat(v.replace('Z', '+00:00'))\<close>: only a string has
  \<^verbatim>\<open>replace\<close>; any other value raises \<^verbatim>\<open>AttributeError\<close>.
\<close>

definition parse_date :: "pylib \<Rightarrow> pyval \<Rightarrow> exc + datetime" where
  "parse_date lib v =
     (case v of
        PStr s \<Rightarrow> fromisoformat lib (replace_Z s)
      | _ \<Rightarrow> Inl (AttributeError ''object has no attribute 'replace' ''))"

text \<open>
  \<^verbatim>\<open>try: <parse the date> except (ValueError, AttributeError): errors.append(message)\<close>:
  the errors the block adds, or the exception it lets through.
\<close>

definition try_date :: "pylib \<Rightarrow> pyval \<Rightarrow> string \<Rightarrow> exc + string list" where
  "try_date lib v message =
     (case parse_date lib v of
        Inr _ \<Rightarrow> Inr []
      | Inl e \<Rightarrow>
          (case e of
             ValueError _ \<Rightarrow> Inr [message]
           | AttributeError _ \<Rightarrow> Inr [message]
           | _ \<Rightarrow> Inl e))"

text \<open>
  \<^verbatim>\<open>try: <convert and check the range> except (ValueError, TypeError): errors.append(...)\<close>,
  given the outcome of the conversion.
\<close>

definition try_number :: "exc + 'a \<Rightarrow> ('a \<Rightarrow> bool) \<Rightarrow> string \<Rightarrow> string \<Rightarrow> exc + string list" where
  "try_number converted in_range range_message invalid_message =
     (case converted of
        Inr x \<Rightarrow> Inr (if in_range x then [] else [range_message])
      | Inl e \<Rightarrow>
          (case e of
             ValueError _ \<Rightarrow> Inr [invalid_message]
           | TypeError _ \<Rightarrow> Inr [invalid_message]
           | _ \<Rightarrow> Inl e))"

definition required_fields_cycle_prediction :: "string list" where
  "required_fields_cycle_prediction = [''start_date'', ''cycle_length'']"

definition required_fields_symptom_analysis :: "string list" where
  "required_fields_symptom_analysis = [''type'', ''severity'', ''date'']"

definition valid_symptom_types :: "string list" where
  "valid_symptom_types = [''cramps'', ''bloating'', ''mood_swings'', ''headache'', ''fatigue'',
     ''acne'', ''breast_tenderness'', ''back_pain'', ''nausea'', ''other'']"

definition missing_field :: "pydict \<Rightarrow> string \<Rightarrow> bool" where
  "missing_field d field = (case map_of d field of None \<Rightarrow> True | Some v \<Rightarrow> v = PNone)"

text \<open>
  One pass of the loop of \<^verbatim>\<open>validate_cycle_input\<close>: the errors the record adds, in the
  order of the source, or the exception that ends the call; \<open>i\<close> is the index from 0.
\<close>

definition cycle_errors :: "pylib \<Rightarrow> nat \<Rightarrow> pydict \<Rightarrow> exc + string list" where
  "cycle_errors lib i cycle =
     bind (case map_of cycle ''start_date'' of
             None \<Rightarrow> Inr []
           | Some v \<Rightarrow>
               try_date lib v
                 (''Cycle '' @ str_nat (i + 1) @ '': Invalid date format for start_date''))
       (\<lambda>date_errors.
     bind (case map_of cycle ''cycle_length'' of
             None \<Rightarrow> Inr []
           | Some PNone \<Rightarrow> Inr []
           | Some v \<Rightarrow>
               try_number (py_int lib v) (\<lambda>len. 21 \<le> len \<and> len \<le> 45)
                 (''Cycle '' @ str_nat (i + 1) @ '': cycle_length must be between ''
                    @ str_int 21 @ '' and '' @ str_int 45)
                 (''Cycle '' @ str_nat (i + 1) @ '': cycle_length must be a valid integer''))
       (\<lambda>length_errors.
     Inr (map (\<lambda>field. ''Cycle '' @ str_nat (i + 1) @ '': Missing required field: '' @ field)
            (filter (missing_field cycle) required_fields_cycle_prediction)
          @ date_errors @ length_errors)))"

definition validate_cycle_input :: "pylib \<Rightarrow> pydict list \<Rightarrow> exc + bool \<times> string list" where
  "validate_cycle_input lib data =
     (if data = [] then Inr (False, [''At least one cycle is required''])
      else bind (traverse (\<lambda>(i, cycle). cycle_errors lib i cycle) (enumerate 0 data))
             (\<lambda>per_record. let errors = concat per_record in Inr (errors = [], errors)))"

text \<open>One pass of the loop of \<^verbatim>\<open>validate_symptom_input\<close>.\<close>

definition symptom_errors :: "pylib \<Rightarrow> nat \<Rightarrow> pydict \<Rightarrow> exc + string list" where
  "symptom_errors lib i symptom =
     bind (case map_of symptom ''severity'' of
             None \<Rightarrow> Inr []
           | Some PNone \<Rightarrow> Inr []
           | Some v \<Rightarrow>
               try_number (py_float lib v) (between 1 10)
                 (''Symptom '' @ str_nat (i + 1) @ '': severity must be between ''
                    @ str_int 1 @ '' and '' @ str_int 10)
                 (''Symptom '' @ str_nat (i + 1) @ '': severity must be a valid number''))
       (\<lambda>severity_errors.
     bind (case map_of symptom ''date'' of
             None \<Rightarrow> Inr []
           | Some v \<Rightarrow>
               try_date lib v (''Symptom '' @ str_nat (i + 1) @ '': Invalid date format''))
       (\<lambda>date_errors.
     Inr (map (\<lambda>field. ''Symptom '' @ str_nat (i + 1) @ '': Missing required field: '' @ field)
            (filter (missing_field symptom) required_fields_symptom_analysis)
          @ (case map_of symptom ''type'' of
               None \<Rightarrow> []
             | Some v \<Rightarrow>
                 if v \<in> set (map PStr valid_symptom_types) then []
                 else [''Symptom '' @ str_nat (i + 1) @ '': Invalid symptom type: '' @ py_str lib v])
          @ severity_errors @ date_errors)))"

definition validate_symptom_input :: "pylib \<Rightarrow> pydict list \<Rightarrow> exc + bool \<times> string list" where
  "validate_symptom_input lib data =
     (if data = [] then Inr (False, [''At least one symptom is required''])
      else bind (traverse (\<lambda>(i, symptom). symptom_errors lib i symptom) (enumerate 0 data))
             (\<lambda>per_record. let errors = concat per_record in Inr (errors = [], errors)))"

text \<open>
  \<^verbatim>\<open>validate_date_range(start_date, end_date, max_days)\<close>, the one place of the module
  that compares a date with the clock. Its handler catches \<^verbatim>\<open>ValueError\<close> only.
\<close>

definition validate_date_range ::
  "pylib \<Rightarrow> datetime \<Rightarrow> string \<Rightarrow> string \<Rightarrow> int \<Rightarrow> exc + bool \<times> string" where
  "validate_date_range lib now start_str end_str max_days =
     (case bind (fromisoformat lib (replace_Z start_str)) (\<lambda>start.
           bind (fromisoformat lib (replace_Z end_str)) (\<lambda>stop. Inr (start, stop))) of
        Inl e \<Rightarrow>
          (case e of
             ValueError _ \<Rightarrow> Inr (False, ''Invalid date format: '' @ str_exc e)
           | _ \<Rightarrow> Inl e)
      | Inr (start, stop) \<Rightarrow>
          if start \<ge> stop then Inr (False, ''Start date must be before end date'')
          else if delta_days stop start > max_days
          then Inr (False, ''Date range cannot exceed '' @ str_int max_days @ '' days'')
          else if start > now + timedelta 30
          then Inr (False, ''Start date cannot be more than 30 days in the future'')
          else Inr (True, []))"

section \<open>A concrete library and model for worked examples\<close>

text \<open>
  The plain calendar form \<^verbatim>\<open>YYYY-MM-DD\<close>, which both \<^verbatim>\<open>datetime.fromisoformat\<close> and
  \<^verbatim>\<open>pd.to_datetime\<close> read as midnight of that day, and plain decimal numerals. No
  worked example prints a float, so \<open>float_repr\<close> is a fixed text.
\<close>

definition digit_val :: "char \<Rightarrow> int option" where
  "digit_val c = map_of [(CHR ''0'', 0), (CHR ''1'', 1), (CHR ''2'', 2), (CHR ''3'', 3),
     (CHR ''4'', 4), (CHR ''5'', 5), (CHR ''6'', 6), (CHR ''7'', 7), (CHR ''8'', 8),
     (CHR ''9'', 9)] c"

fun decimal :: "int \<Rightarrow> string \<Rightarrow> int option" where
  "decimal acc [] = Some acc"
| "decimal acc (c # cs) =
     (case digit_val c of None \<Rightarrow> None | Some d \<Rightarrow> decimal (acc * 10 + d) cs)"

definition days_in_month :: "int \<Rightarrow> int \<Rightarrow> int" where
  "days_in_month year month =
     (if month = 2 \<and> is_leap year then 29 else DAYS_IN_MONTH ! nat month)"

definition invalid_isoformat :: "string \<Rightarrow> exc" where
  "invalid_isoformat s = ValueError (''Invalid isoformat string: '' @ [CHR 0x27] @ s @ [CHR 0x27])"

fun iso_date :: "string \<Rightarrow> exc + datetime" where
  "iso_date [y1, y2, y3, y4, s1, m1, m2, s2, d1, d2] =
     (case (decimal 0 [y1, y2, y3, y4], decimal 0 [m1, m2], decimal 0 [d1, d2]) of
        (Some y, Some m, Some d) \<Rightarrow>
          if s1 = CHR ''-'' \<and> s2 = CHR ''-'' \<and> 1 \<le> y \<and> 1 \<le> m \<and> m \<le> 12
               \<and> 1 \<le> d \<and> d \<le> days_in_month y m
          then Inr (mk_date y m d)
          else Inl (invalid_isoformat [y1, y2, y3, y4, s1, m1, m2, s2, d1, d2])
      | _ \<Rightarrow> Inl (invalid_isoformat [y1, y2, y3, y4, s1, m1, m2, s2, d1, d2]))"
| "iso_date s = Inl (invalid_isoformat s)"

definition plain_number :: "string \<Rightarrow> exc + int" where
  "plain_number s =
     (case (s, decimal 0 s) of
        (_ # _, Some n) \<Rightarrow> Inr n
      | _ \<Rightarrow> Inl (ValueError (''invalid literal: '' @ s)))"

definition sample_lib :: pylib where
  "sample_lib = \<lparr>to_datetime = iso_date, fromisoformat = iso_date,
     int_of_str = plain_number,
     float_of_str = (\<lambda>s. bind (plain_number s) (\<lambda>n. Inr (Num (of_int n)))),
     float_repr = (\<lambda>_. ''<float>'')\<rparr>"

text \<open>
  A loaded cycle model: an identity scaler and two constant estimators, as the
  \<^verbatim>\<open>DummyRegressor\<close> bundle of \<^verbatim>\<open>_initialize_default_model\<close> has.
\<close>

definition constant_cycle_model :: "real \<Rightarrow> real \<Rightarrow> cycle_ensemble predictor" where
  "constant_cycle_model rf lr =
     \<lparr>model = Some \<lparr>random_forest = (\<lambda>_. Inr rf), linear_regression = (\<lambda>_. Inr lr)\<rparr>,
      scaler = Inr,
      feature_columns = [''previous_cycle_length'', ''previous_period_length'', ''age'',
        ''bmi'', ''stress_level'', ''exercise_frequency'', ''season'', ''cycle_regularity''],
      is_trained = True,
      model_version = ''1.0.0''\<rparr>"

definition scenario_A :: "cycle list" where
  "scenario_A =
     [\<lparr>start_date = ''2023-01-01'', cycle_length = Val 28, period_length = Val 5\<rparr>,
      \<lparr>start_date = ''2023-01-29'', cycle_length = Val 30, period_length = Val 4\<rparr>,
      \<lparr>start_date = ''2023-02-28'', cycle_length = Val 27, period_length = Val 6\<rparr>]"

text \<open>
  A loaded PCOS model with constant estimators and a given feature-column list: the
  declared \<^verbatim>\<open>FEATURE_COLUMNS['pcos_risk']\<close> of \<^verbatim>\<open>src/ml/src/utils/constants.py\<close>, or the
  list \<^verbatim>\<open>load_model\<close> took from a saved file.
\<close>

definition constant_pcos_model :: "string list \<Rightarrow> real \<Rightarrow> real \<Rightarrow> pcos_ensemble predictor" where
  "constant_pcos_model columns rf gb =
     \<lparr>model = Some \<lparr>random_forest = (\<lambda>_. Inr rf), gradient_boosting = (\<lambda>_. Inr gb)\<rparr>,
      scaler = Inr,
      feature_columns = columns,
      is_trained = True,
      model_version = ''1.0.0''\<rparr>"

definition scenario_B :: dataframe where
  "scenario_B =
     [(''age'', NumCol [Some 25]), (''bmi'', NumCol [Some (45 / 2)]),
      (''cycle_length'', NumCol [Some 28]), (''period_length'', NumCol [Some 5]),
      (''exercise_frequency'', NumCol [Some 3]), (''stress_level'', NumCol [Some 2]),
      (''family_history'', BoolCol [False]), (''sleep_quality'', NumCol [Some 3])]"

definition scenario_B_engineered :: dataframe where
  "scenario_B_engineered = scenario_B @
     [(''bmi_category'', NumCol [Some 1]), (''cycle_irregular'', NumCol [Some 0]),
      (''period_category'', NumCol [Some 1]), (''lifestyle_risk'', NumCol [Some 0]),
      (''age_group'', NumCol [Some 1])]"

definition profile_columns :: "string list" where
  "profile_columns = [''age'', ''bmi'', ''cycle_length'', ''period_length'',
     ''exercise_frequency'', ''stress_level'', ''sleep_quality'', ''family_history'']"

text \<open>
  \<^verbatim>\<open>StandardScaler.transform\<close> of a scaler fitted on \<open>n\<close> columns, with mean 0 and unit
  variance: a row of another width raises \<^verbatim>\<open>ValueError\<close>.
\<close>

definition fitted_scaler :: "nat \<Rightarrow> fvec \<Rightarrow> exc + fvec" where
  "fitted_scaler n row =
     (if length row = n then Inr row
      else Inl (ValueError (''X has '' @ str_nat (length row)
             @ '' features, but StandardScaler is expecting '' @ str_nat n
             @ '' features as input.'')))"

text \<open>
  The instance \<^verbatim>\<open>_initialize_default_model\<close> leaves behind: the declared feature columns,
  a scaler fitted on \<^verbatim>\<open>len(self.feature_columns)\<close> columns and two dummy estimators, here
  with fixed answers.
\<close>

definition default_pcos_model :: "real \<Rightarrow> real \<Rightarrow> pcos_ensemble predictor" where
  "default_pcos_model rf gb =
     \<lparr>model = Some \<lparr>random_forest = (\<lambda>_. Inr rf), gradient_boosting = (\<lambda>_. Inr gb)\<rparr>,
      scaler = fitted_scaler (length FEATURE_COLUMNS_pcos_risk),
      feature_columns = FEATURE_COLUMNS_pcos_risk,
      is_trained = True,
      model_version = ''1.0.0''\<rparr>"

text \<open>Scenario B with the ninth declared column supplied.\<close>

definition scenario_B_with_symptom_count :: dataframe where
  "scenario_B_with_symptom_count = scenario_B @ [(''symptom_count'', NumCol [Some 0])]"

definition mixed_cycles :: "cycle list" where
  "mixed_cycles =
     [\<lparr>start_date = ''2023-01-01'', cycle_length = Val 28, period_length = Absent\<rparr>,
      \<lparr>start_date = ''2023-01-31'', cycle_length = Absent, period_length = Absent\<rparr>]"

section \<open>Lemmas about the model\<close>

lemma bind_Inr: "bind r f = Inr y \<longleftrightarrow> (\<exists>v. r = Inr v \<and> f v = Inr y)"
  by (cases r) (simp_all add: bind_def)

lemma bind_InrE:
  assumes "bind r f = Inr y"
  obtains v where "r = Inr v" and "f v = Inr y"
  using assms by (auto simp: bind_Inr)

lemma reraise_Inr: "reraise mk p r = Inr v \<longleftrightarrow> r = Inr v"
  by (cases r) (simp_all add: reraise_def)

lemma str_nat_small: "n < 10 \<Longrightarrow> str_nat n = [''0123456789'' ! n]"
  by (subst str_nat.simps) simp

lemma str_nat_two:
  "10 \<le> n \<Longrightarrow> n < 100
   \<Longrightarrow> str_nat n = [''0123456789'' ! (n div 10), ''0123456789'' ! (n mod 10)]"
  by (subst str_nat.simps) (simp add: str_nat_small)

lemma str_nat_1: "str_nat (Suc 0) = ''1''"
  by (simp add: str_nat_small)

lemma traverse_length: "traverse f xs = Inr ys \<Longrightarrow> length ys = length xs"
  by (induction xs arbitrary: ys) (auto split: sum.splits)

lemma traverse_nth:
  "traverse f xs = Inr ys \<Longrightarrow> i < length xs \<Longrightarrow> f (xs ! i) = Inr (ys ! i)"
proof (induction xs arbitrary: ys i)
  case Nil
  then show ?case by simp
next
  case (Cons x xs)
  then show ?case by (cases i) (auto split: sum.splits)
qed

lemma traverse_keyed:
  "traverse (\<lambda>x. bind (f x) (\<lambda>t. Inr (x, t))) xs = Inr kts
   \<Longrightarrow> map fst kts = xs \<and> list_all (\<lambda>(x, t). f x = Inr t) kts"
proof (induction xs arbitrary: kts)
  case Nil
  then show ?case by simp
next
  case (Cons x xs)
  then show ?case by (auto simp: bind_Inr split: sum.splits)
qed

lemma max_by_key_props:
  "\<exists>t. (max_by_key b kts, t) \<in> set (b # kts) \<and> (\<forall>(x, t') \<in> set (b # kts). t' \<le> t)"
proof (induction kts arbitrary: b)
  case Nil
  then show ?case by (cases b) auto
next
  case (Cons k kts)
  obtain t where t: "(max_by_key (if snd k > snd b then k else b) kts, t)
        \<in> set ((if snd k > snd b then k else b) # kts)"
      "\<forall>(x, t') \<in> set ((if snd k > snd b then k else b) # kts). t' \<le> t"
    using Cons.IH by blast
  show ?case
  proof (cases "snd k > snd b")
    case True
    with t have "snd b \<le> t" by (cases k) auto
    with t True show ?thesis by (cases b) (auto intro!: exI[of _ t])
  next
    case False
    with t have "snd k \<le> t" by (cases b) auto
    with t False show ?thesis by (cases k) (auto intro!: exI[of _ t])
  qed
qed

lemma py_round_bounds:
  assumes "of_int a \<le> x" and "x \<le> of_int b"
  shows "a \<le> py_round x \<and> py_round x \<le> b"
proof -
  have lo: "a \<le> \<lfloor>x\<rfloor>" using assms(1) by (simp add: le_floor_iff)
  have hi: "\<lfloor>x\<rfloor> \<le> b" using assms(2) by (simp add: floor_le_iff)
  have frac: "x - of_int \<lfloor>x\<rfloor> \<ge> 1 / 2 \<Longrightarrow> \<lfloor>x\<rfloor> + 1 \<le> b"
  proof -
    assume h: "x - of_int \<lfloor>x\<rfloor> \<ge> 1 / 2"
    have "of_int \<lfloor>x\<rfloor> < (of_int b :: real)" using h assms(2) by linarith
    then have "\<lfloor>x\<rfloor> < b" by simp
    then show ?thesis by simp
  qed
  show ?thesis
    using lo hi frac by (auto simp: py_round_def Let_def)
qed

lemma clip01_bounds: "0 \<le> clip01 x \<and> clip01 x \<le> 1"
  by (simp add: clip01_def)

lemma regularity_nonneg: "0 \<le> regularity s"
  by (cases s) (simp_all add: regularity_def py_max_def)

lemma regularity_Some: "regularity (Some s) = max 0 (1 - s / 7)"
  by (simp add: regularity_def py_max_def max_def)

lemma regularity_antimono: "s1 \<le> s2 \<Longrightarrow> regularity (Some s2) \<le> regularity (Some s1)"
  by (simp add: regularity_Some max_def)

lemma length_diff_days: "length (diff_days ts) = length ts - 1"
  by (induction ts rule: diff_days.induct) simp_all

lemma length_cycle_length_column: "length (cycle_length_column S) = length S"
  by (cases S) (simp_all add: cycle_length_column_def length_diff_days)

lemma length_period_length_column: "length (period_length_column S) = length S"
  by (simp add: period_length_column_def)

lemma length_make_rows:
  "length cs = length ts \<Longrightarrow> length ps = length ts \<Longrightarrow> length (make_rows ts cs ps) = length ts"
  by (induction ts cs ps rule: make_rows.induct) simp_all

lemma cycle_lengths_make_rows:
  "length cs = length ts \<Longrightarrow> length ps = length ts
   \<Longrightarrow> map row_cycle_length (make_rows ts cs ps) = cs"
  by (induction ts cs ps rule: make_rows.induct) simp_all

lemma process_cycle_data_InrD:
  assumes "process_cycle_data lib cycles = Inr df"
  shows "cycles \<noteq> [] \<and> length df = length cycles
    \<and> (\<exists>dates. traverse (\<lambda>c. to_datetime lib (start_date c)) cycles = Inr dates
          \<and> map row_cycle_length df = cycle_length_column (sort_key fst (zip dates cycles)))"
proof -
  from assms have ne: "cycles \<noteq> []"
    by (auto simp: process_cycle_data_def reraise_Inr split: if_splits)
  with assms obtain dates where d: "traverse (\<lambda>c. to_datetime lib (start_date c)) cycles = Inr dates"
    and df: "df = make_rows (map fst (sort_key fst (zip dates cycles)))
                    (cycle_length_column (sort_key fst (zip dates cycles)))
                    (period_length_column (sort_key fst (zip dates cycles)))"
    by (auto simp: process_cycle_data_def reraise_Inr bind_Inr Let_def)
  have len: "length dates = length cycles" using d by (rule traverse_length)
  show ?thesis
    using ne d len
    by (auto simp: df length_make_rows cycle_lengths_make_rows
          length_cycle_length_column length_period_length_column)
qed

lemma cycle_engineer_features_InrD:
  assumes "cycle_engineer_features lib now cycles = Inr fs"
  shows "\<exists>df. process_cycle_data lib cycles = Inr df \<and> length df = length cycles
     \<and> map_of fs ''cycle_regularity'' =
          Some (Some (if length df < 2 then 1 / 2 else regularity (series_std (map row_cycle_length df))))
     \<and> (2 \<le> length df \<longrightarrow> map_of fs ''cycle_std'' = Some (series_std (map row_cycle_length df)))"
proof -
  from assms obtain df where df: "process_cycle_data lib cycles = Inr df"
    by (auto simp: cycle_engineer_features_def reraise_Inr bind_Inr)
  have len: "length df = length cycles" using process_cycle_data_InrD[OF df] by simp
  show ?thesis
    using assms df len
    by (auto simp: cycle_engineer_features_def reraise_Inr bind_def Let_def split: if_splits)
qed

lemma cycle_predict_InrD:
  assumes "cycle_predict lib now self cycles = Inr r"
  shows "\<exists>m features feature_array X_scaled rf_pred lr_pred k ks last_start last_length reg.
     is_trained self \<and> model self = Some m
     \<and> cycle_engineer_features lib now cycles = Inr features
     \<and> traverse (getitem features) feature_names = Inr feature_array
     \<and> scaler self feature_array = Inr X_scaled
     \<and> random_forest m X_scaled = Inr rf_pred
     \<and> linear_regression m X_scaled = Inr lr_pred
     \<and> traverse (\<lambda>x. bind (fromisoformat lib (replace_Z (start_date x))) (\<lambda>t. Inr (x, t))) cycles
          = Inr (k # ks)
     \<and> fromisoformat lib (replace_Z (start_date (max_by_key k ks))) = Inr last_start
     \<and> last_length_of (max_by_key k ks) = Inr last_length
     \<and> getitem features ''cycle_regularity'' = Inr reg
     \<and> predicted_start_date r = last_start + timedelta last_length
     \<and> predicted_cycle_length r = py_round (max 21 (min 45 (7 / 10 * rf_pred + 3 / 10 * lr_pred)))
     \<and> confidence r = map_option
          (\<lambda>x. clip01 ((1 - \<bar>rf_pred - lr_pred\<bar> / max (max rf_pred lr_pred) 1 + x) / 2)) reg"
  using assms
  unfolding cycle_predict_def reraise_Inr Let_def
  apply (simp split: if_splits option.splits)
  apply (elim bind_InrE exE conjE)
  apply (simp split: list.splits)
  apply (auto simp: option.map_comp comp_def)
  done

subsection \<open>Scenario A, evaluated\<close>

lemmas date_defs = mk_date_def ymd2ord_def days_before_year_def days_before_month_def
  DAYS_BEFORE_MONTH_def DAYS_IN_MONTH_def is_leap_def usec_per_day_def timedelta_def delta_days_def
  days_in_month_def digit_val_def invalid_isoformat_def

lemma scenario_A_processed:
  "process_cycle_data sample_lib scenario_A =
     Inr [\<lparr>row_start_date = mk_date 2023 1 1, row_cycle_length = Some 28, row_period_length = 5\<rparr>,
          \<lparr>row_start_date = mk_date 2023 1 29, row_cycle_length = Some 30, row_period_length = 4\<rparr>,
          \<lparr>row_start_date = mk_date 2023 2 28, row_cycle_length = Some 27, row_period_length = 6\<rparr>]"
  by (simp add: process_cycle_data_def scenario_A_def sample_lib_def bind_def reraise_def date_defs
        cycle_length_column_def period_length_column_def)

lemma scenario_A_features:
  "cycle_engineer_features sample_lib now scenario_A =
     Inr [(''avg_cycle_length'', Some (85 / 3)),
          (''cycle_regularity'', Some (regularity (Some (sqrt (7 / 3))))),
          (''avg_period_length'', Some 5),
          (''trend_slope'', Some 0),
          (''recent_avg'', Some (85 / 3)),
          (''season'', Some 0),
          (''cycles_count'', Some 3),
          (''days_since_last'', Some (of_int (delta_days now (mk_date 2023 2 28)))),
          (''cycle_std'', Some (sqrt (7 / 3)))]"
  apply (simp add: cycle_engineer_features_def scenario_A_processed bind_def reraise_def
        series_mean_def series_std_def dropna_def List.map_filter_simps Let_def)
  apply (simp add: get_season_def month_of_def ord2ymd_def date_defs Let_def power2_eq_square)
  done

lemma scenario_A_predict:
  "\<exists>r. cycle_predict sample_lib now (constant_cycle_model rf lr) scenario_A = Inr r
     \<and> predicted_start_date r = mk_date 2023 3 27
     \<and> predicted_cycle_length r = py_round (max 21 (min 45 (7 / 10 * rf + 3 / 10 * lr)))
     \<and> confidence r = Some (clip01 ((1 - \<bar>rf - lr\<bar> / max (max rf lr) 1
                                      + regularity (Some (sqrt (7 / 3)))) / 2))"
  apply (simp add: cycle_predict_def constant_cycle_model_def scenario_A_features bind_def reraise_def
        feature_names_def getitem_def Let_def)
  apply (simp add: scenario_A_def sample_lib_def replace_Z_def last_length_of_def date_defs bind_def)
  done

section \<open>Claims about the cycle predictor\<close>

text \<open>
  Claim C1. Whatever the two estimators return, a cycle prediction that is returned has
  its \<open>predicted_cycle_length\<close> between 21 and 45 inclusive.
\<close>

theorem C1_predicted_cycle_length_clamped:
  "cycle_predict lib now self cycles = Inr r
   \<Longrightarrow> 21 \<le> predicted_cycle_length r \<and> predicted_cycle_length r \<le> 45"
proof -
  assume "cycle_predict lib now self cycles = Inr r"
  then obtain rf_pred lr_pred where
    "predicted_cycle_length r = py_round (max 21 (min 45 (7 / 10 * rf_pred + 3 / 10 * lr_pred)))"
    using cycle_predict_InrD by blast
  then show ?thesis
    using py_round_bounds[of 21 "max 21 (min 45 (7 / 10 * rf_pred + 3 / 10 * lr_pred))" 45]
    by simp
qed

text \<open>Estimators that return 0 give length 21, estimators that return 100 give 45.\<close>

theorem C1_witness:
  "(\<exists>r. cycle_predict sample_lib (mk_date 2023 4 1) (constant_cycle_model 0 0) scenario_A = Inr r
        \<and> predicted_cycle_length r = 21)
   \<and> (\<exists>r. cycle_predict sample_lib (mk_date 2023 4 1) (constant_cycle_model 100 100) scenario_A = Inr r
        \<and> predicted_cycle_length r = 45
        \<and> 21 \<le> predicted_cycle_length r \<and> predicted_cycle_length r \<le> 45)"
proof -
  obtain r0 where r0: "cycle_predict sample_lib (mk_date 2023 4 1) (constant_cycle_model 0 0) scenario_A = Inr r0"
      "predicted_cycle_length r0 = py_round (max 21 (min 45 (7 / 10 * 0 + 3 / 10 * 0)))"
    using scenario_A_predict[of "mk_date 2023 4 1" 0 0] by blast
  obtain r1 where r1: "cycle_predict sample_lib (mk_date 2023 4 1) (constant_cycle_model 100 100) scenario_A = Inr r1"
      "predicted_cycle_length r1 = py_round (max 21 (min 45 (7 / 10 * 100 + 3 / 10 * 100)))"
    using scenario_A_predict[of "mk_date 2023 4 1" 100 100] by blast
  have "predicted_cycle_length r0 = 21" using r0(2) by (simp add: py_round_def)
  moreover have "predicted_cycle_length r1 = 45" using r1(2) by (simp add: py_round_def)
  ultimately show ?thesis
    using r0(1) r1(1) C1_predicted_cycle_length_clamped[OF r1(1)] by blast
qed

lemma get_season_range: "get_season t \<in> {0, 1, 2, 3}"
  by (simp add: get_season_def Let_def)

lemma single_cycle_processed:
  assumes "to_datetime lib (start_date c) = Inr t"
  shows "\<exists>row. process_cycle_data lib [c] = Inr [row]"
  using assms
  by (cases "cycle_length c = Absent"; cases "period_length c = Absent")
     (simp_all add: process_cycle_data_def bind_def reraise_def cycle_length_column_def
        period_length_column_def)

text \<open>
  Claim C2, as amended. For a history of exactly one record whose date parses, the
  engineered features are \<open>avg_cycle_length = 28\<close>, \<open>cycle_regularity = 0.5\<close>,
  \<open>avg_period_length = 5\<close>, \<open>trend_slope = 0\<close>, \<open>recent_avg = 28\<close>, \<open>season\<close> the
  season (0 to 3) of the current date and \<open>cycles_count = 1\<close>; the empty history is
  rejected with an exception.
\<close>

theorem C2_default_features_single_record:
  "(to_datetime lib (start_date c) = Inr t \<longrightarrow>
      (\<exists>fs. cycle_engineer_features lib now [c] = Inr fs
         \<and> map_of fs ''avg_cycle_length'' = Some (Some 28)
         \<and> map_of fs ''cycle_regularity'' = Some (Some (1 / 2))
         \<and> map_of fs ''avg_period_length'' = Some (Some 5)
         \<and> map_of fs ''trend_slope'' = Some (Some 0)
         \<and> map_of fs ''recent_avg'' = Some (Some 28)
         \<and> map_of fs ''season'' = Some (Some (of_int (get_season now)))
         \<and> get_season now \<in> {0, 1, 2, 3}
         \<and> map_of fs ''cycles_count'' = Some (Some 1)))
   \<and> (\<exists>e. cycle_engineer_features lib now [] = Inl e)"
proof -
  have "\<exists>e. cycle_engineer_features lib now [] = Inl e"
    by (simp add: cycle_engineer_features_def process_cycle_data_def bind_def reraise_def)
  moreover have "\<exists>fs. cycle_engineer_features lib now [c] = Inr fs
         \<and> map_of fs ''avg_cycle_length'' = Some (Some 28)
         \<and> map_of fs ''cycle_regularity'' = Some (Some (1 / 2))
         \<and> map_of fs ''avg_period_length'' = Some (Some 5)
         \<and> map_of fs ''trend_slope'' = Some (Some 0)
         \<and> map_of fs ''recent_avg'' = Some (Some 28)
         \<and> map_of fs ''season'' = Some (Some (of_int (get_season now)))
         \<and> get_season now \<in> {0, 1, 2, 3}
         \<and> map_of fs ''cycles_count'' = Some (Some 1)"
    if parsed: "to_datetime lib (start_date c) = Inr t"
  proof -
    obtain row where "process_cycle_data lib [c] = Inr [row]"
      using single_cycle_processed[OF parsed] by blast
    then show ?thesis
      using get_season_range[of now]
      by (simp add: cycle_engineer_features_def bind_def reraise_def)
  qed
  ultimately show ?thesis by blast
qed

theorem C2_witness:
  "\<exists>fs. cycle_engineer_features sample_lib (mk_date 2023 4 1)
           [\<lparr>start_date = ''2023-01-01'', cycle_length = Val 28, period_length = Val 5\<rparr>] = Inr fs
      \<and> map_of fs ''avg_cycle_length'' = Some (Some 28)
      \<and> map_of fs ''season'' = Some (Some 1)
      \<and> map_of fs ''cycles_count'' = Some (Some 1)"
proof -
  have p: "to_datetime sample_lib
      (start_date \<lparr>start_date = ''2023-01-01'', cycle_length = Val 28, period_length = Val 5\<rparr>)
      = Inr (mk_date 2023 1 1)"
    by (simp add: sample_lib_def date_defs)
  have s: "get_season (mk_date 2023 4 1) = 1"
    by (simp add: get_season_def month_of_def ord2ymd_def date_defs Let_def)
  show ?thesis
    using C2_default_features_single_record[of sample_lib
        "\<lparr>start_date = ''2023-01-01'', cycle_length = Val 28, period_length = Val 5\<rparr>"
        "mk_date 2023 1 1" "mk_date 2023 4 1"] p s
    by auto
qed

text \<open>
  The claim as stated fails: the empty history raises, and the dict returned for one
  record has seven entries, with neither \<open>days_since_last\<close> nor \<open>cycle_std\<close>.
\<close>

theorem C2_counterexample:
  "cycle_engineer_features sample_lib (mk_date 2023 4 1) [] =
     Inl (ValueError ''Feature engineering failed: Cycle data processing failed: No cycle data provided'')
   \<and> cycle_engineer_features sample_lib (mk_date 2023 4 1)
        [\<lparr>start_date = ''2023-01-01'', cycle_length = Val 28, period_length = Val 5\<rparr>] =
     Inr [(''avg_cycle_length'', Some 28), (''cycle_regularity'', Some (1 / 2)),
          (''avg_period_length'', Some 5), (''trend_slope'', Some 0), (''recent_avg'', Some 28),
          (''season'', Some 1), (''cycles_count'', Some 1)]"
proof -
  have s: "get_season (mk_date 2023 4 1) = 1"
    by (simp add: get_season_def month_of_def ord2ymd_def date_defs Let_def)
  have "process_cycle_data sample_lib
          [\<lparr>start_date = ''2023-01-01'', cycle_length = Val 28, period_length = Val 5\<rparr>] =
        Inr [\<lparr>row_start_date = mk_date 2023 1 1, row_cycle_length = Some 28, row_period_length = 5\<rparr>]"
    by (simp add: process_cycle_data_def sample_lib_def bind_def reraise_def date_defs
          cycle_length_column_def period_length_column_def)
  then show ?thesis
    by (simp add: cycle_engineer_features_def process_cycle_data_def bind_def reraise_def s)
qed

lemma keyed_first_max:
  assumes tr: "traverse (\<lambda>x. bind (f x) (\<lambda>t. Inr (x, t))) xs = Inr (k # ks)"
  shows "\<exists>t. max_by_key k ks \<in> set xs \<and> f (max_by_key k ks) = Inr t
           \<and> (\<forall>x \<in> set xs. \<forall>t'. f x = Inr t' \<longrightarrow> t' \<le> t)"
proof -
  have fst: "map fst (k # ks) = xs" and all: "list_all (\<lambda>(x, t). f x = Inr t) (k # ks)"
    using traverse_keyed[OF tr] by simp_all
  obtain t where mem: "(max_by_key k ks, t) \<in> set (k # ks)"
    and top: "\<forall>(x, t') \<in> set (k # ks). t' \<le> t"
    using max_by_key_props[of k ks] by blast
  have keys: "\<And>x t'. (x, t') \<in> set (k # ks) \<Longrightarrow> f x = Inr t'"
    using all by (auto simp: list_all_iff)
  have "max_by_key k ks \<in> set xs"
    using mem fst by (metis fst_conv image_eqI set_map)
  moreover have "f (max_by_key k ks) = Inr t" using keys[OF mem] .
  moreover have "t' \<le> t" if "x \<in> set xs" and "f x = Inr t'" for x t'
  proof -
    from that(1) fst obtain t'' where in_k: "(x, t'') \<in> set (k # ks)"
      by (metis (no_types, lifting) imageE prod.collapse set_map)
    then have "f x = Inr t''" by (rule keys)
    with that(2) have "t'' = t'" by simp
    with in_k top show ?thesis by auto
  qed
  ultimately show ?thesis by blast
qed

text \<open>
  Claim C4. A returned cycle prediction starts at the start date of the most recent
  record (the one with the greatest parsed date) plus that record's own cycle length,
  28 when the record has none; the predicted length plays no part. On scenario A this
  is 2023-02-28 plus 27 days, 2023-03-27, whatever the estimators return.
\<close>

theorem C4_start_from_last_known_cycle:
  "(cycle_predict lib now self cycles = Inr r \<longrightarrow>
      (\<exists>c t. c \<in> set cycles
         \<and> fromisoformat lib (replace_Z (start_date c)) = Inr t
         \<and> (\<forall>c' \<in> set cycles. \<forall>t'.
               fromisoformat lib (replace_Z (start_date c')) = Inr t' \<longrightarrow> t' \<le> t)
         \<and> predicted_start_date r =
             t + timedelta (case cycle_length c of Val v \<Rightarrow> v | _ \<Rightarrow> 28)))
   \<and> (\<exists>r'. cycle_predict sample_lib now' (constant_cycle_model rf lr) scenario_A = Inr r'
         \<and> predicted_start_date r' = mk_date 2023 2 28 + timedelta 27
         \<and> predicted_start_date r' = mk_date 2023 3 27)"
proof -
  have general: "\<exists>c t. c \<in> set cycles
         \<and> fromisoformat lib (replace_Z (start_date c)) = Inr t
         \<and> (\<forall>c' \<in> set cycles. \<forall>t'.
               fromisoformat lib (replace_Z (start_date c')) = Inr t' \<longrightarrow> t' \<le> t)
         \<and> predicted_start_date r =
             t + timedelta (case cycle_length c of Val v \<Rightarrow> v | _ \<Rightarrow> 28)"
    if ok: "cycle_predict lib now self cycles = Inr r"
  proof -
    obtain k ks last_start last_length where
      tr: "traverse (\<lambda>x. bind (fromisoformat lib (replace_Z (start_date x))) (\<lambda>t. Inr (x, t))) cycles
             = Inr (k # ks)"
      and ls: "fromisoformat lib (replace_Z (start_date (max_by_key k ks))) = Inr last_start"
      and ll: "last_length_of (max_by_key k ks) = Inr last_length"
      and ps: "predicted_start_date r = last_start + timedelta last_length"
      using cycle_predict_InrD[OF ok] by blast
    obtain t where mem: "max_by_key k ks \<in> set cycles"
      and kt: "fromisoformat lib (replace_Z (start_date (max_by_key k ks))) = Inr t"
      and top: "\<forall>x \<in> set cycles. \<forall>t'.
                  fromisoformat lib (replace_Z (start_date x)) = Inr t' \<longrightarrow> t' \<le> t"
      using keyed_first_max[OF tr] by blast
    have "t = last_start" using kt ls by simp
    moreover have "last_length = (case cycle_length (max_by_key k ks) of Val v \<Rightarrow> v | _ \<Rightarrow> 28)"
      using ll by (auto simp: last_length_of_def split: field.splits)
    ultimately show ?thesis using mem kt top ps by blast
  qed
  have "mk_date 2023 2 28 + timedelta 27 = mk_date 2023 3 27"
    by (simp add: date_defs)
  then have "\<exists>r'. cycle_predict sample_lib now' (constant_cycle_model rf lr) scenario_A = Inr r'
         \<and> predicted_start_date r' = mk_date 2023 2 28 + timedelta 27
         \<and> predicted_start_date r' = mk_date 2023 3 27"
    using scenario_A_predict[of now' rf lr] by auto
  with general show ?thesis by blast
qed

text \<open>Scenario A with estimators that predict 40 days: the start is still 2023-03-27.\<close>

theorem C4_witness:
  "\<exists>r. cycle_predict sample_lib (mk_date 2023 3 1) (constant_cycle_model 40 40) scenario_A = Inr r
      \<and> predicted_start_date r = mk_date 2023 3 27
      \<and> (\<exists>c t. c \<in> set scenario_A
            \<and> fromisoformat sample_lib (replace_Z (start_date c)) = Inr t
            \<and> predicted_start_date r = t + timedelta (case cycle_length c of Val v \<Rightarrow> v | _ \<Rightarrow> 28))"
proof -
  obtain r where r: "cycle_predict sample_lib (mk_date 2023 3 1) (constant_cycle_model 40 40) scenario_A = Inr r"
    and start: "predicted_start_date r = mk_date 2023 3 27"
    using C4_start_from_last_known_cycle[of sample_lib "mk_date 2023 3 1" "constant_cycle_model 40 40"
        scenario_A _ "mk_date 2023 3 1" 40 40, THEN conjunct2]
    by blast
  have "\<exists>c t. c \<in> set scenario_A
            \<and> fromisoformat sample_lib (replace_Z (start_date c)) = Inr t
            \<and> predicted_start_date r = t + timedelta (case cycle_length c of Val v \<Rightarrow> v | _ \<Rightarrow> 28)"
    using C4_start_from_last_known_cycle[of sample_lib "mk_date 2023 3 1" "constant_cycle_model 40 40"
        scenario_A r "mk_date 2023 3 1" 40 40, THEN conjunct1, rule_format, OF r]
    by blast
  then show ?thesis using r start by blast
qed

text \<open>
  Claim C5. For a history of at least two records the \<open>cycle_regularity\<close> feature is
  \<open>max(0, 1 - std / 7)\<close> of the \<open>cycle_std\<close> feature, the sample standard deviation of
  the cycle-length column (0 when that deviation is NaN); it is never negative and
  does not increase when the deviation grows.
\<close>

theorem C5_cycle_regularity:
  "(cycle_engineer_features lib now cycles = Inr fs \<and> 2 \<le> length cycles \<longrightarrow>
      (\<exists>df std. process_cycle_data lib cycles = Inr df
         \<and> std = series_std (map row_cycle_length df)
         \<and> map_of fs ''cycle_std'' = Some std
         \<and> map_of fs ''cycle_regularity'' = Some (Some (regularity std))
         \<and> 0 \<le> regularity std
         \<and> (\<forall>s. std = Some s \<longrightarrow> regularity std = max 0 (1 - s / 7))))
   \<and> (s1 \<le> s2 \<longrightarrow> regularity (Some s2) \<le> regularity (Some s1))
   \<and> regularity (Some s1) = max 0 (1 - s1 / 7)
   \<and> 0 \<le> regularity (Some s1)"
proof -
  have "\<exists>df std. process_cycle_data lib cycles = Inr df
         \<and> std = series_std (map row_cycle_length df)
         \<and> map_of fs ''cycle_std'' = Some std
         \<and> map_of fs ''cycle_regularity'' = Some (Some (regularity std))
         \<and> 0 \<le> regularity std
         \<and> (\<forall>s. std = Some s \<longrightarrow> regularity std = max 0 (1 - s / 7))"
    if ok: "cycle_engineer_features lib now cycles = Inr fs" and two: "2 \<le> length cycles"
  proof -
    obtain df where df: "process_cycle_data lib cycles = Inr df" "length df = length cycles"
      and reg: "map_of fs ''cycle_regularity'' =
          Some (Some (if length df < 2 then 1 / 2 else regularity (series_std (map row_cycle_length df))))"
      and std: "2 \<le> length df \<longrightarrow> map_of fs ''cycle_std'' = Some (series_std (map row_cycle_length df))"
      using cycle_engineer_features_InrD[OF ok] by blast
    show ?thesis
      using df reg std two regularity_nonneg regularity_Some by auto
  qed
  then show ?thesis
    using regularity_antimono[of s1 s2] regularity_Some[of s1] regularity_nonneg[of "Some s1"]
    by blast
qed

theorem C5_witness:
  "(\<exists>fs. cycle_engineer_features sample_lib (mk_date 2023 3 1) scenario_A = Inr fs
       \<and> map_of fs ''cycle_std'' = Some (Some (sqrt (7 / 3)))
       \<and> map_of fs ''cycle_regularity'' = Some (Some (1 - sqrt (7 / 3) / 7)))
   \<and> regularity (Some 14) \<le> regularity (Some 0)
   \<and> regularity (Some 0) = 1 \<and> regularity (Some 14) = 0"
proof -
  let ?fs = "[(''avg_cycle_length'', Some (85 / 3)),
          (''cycle_regularity'', Some (regularity (Some (sqrt (7 / 3))))),
          (''avg_period_length'', Some 5),
          (''trend_slope'', Some 0),
          (''recent_avg'', Some (85 / 3)),
          (''season'', Some 0),
          (''cycles_count'', Some 3),
          (''days_since_last'', Some (of_int (delta_days (mk_date 2023 3 1) (mk_date 2023 2 28)))),
          (''cycle_std'', Some (sqrt (7 / 3)))]"
  have f: "cycle_engineer_features sample_lib (mk_date 2023 3 1) scenario_A = Inr ?fs"
    by (rule scenario_A_features)
  have two: "2 \<le> length scenario_A" by (simp add: scenario_A_def)
  have small: "sqrt (7 / 3) \<le> 7"
    by (rule real_le_lsqrt) simp_all
  have "\<exists>df std. process_cycle_data sample_lib scenario_A = Inr df
         \<and> std = series_std (map row_cycle_length df)
         \<and> map_of ?fs ''cycle_std'' = Some std
         \<and> map_of ?fs ''cycle_regularity'' = Some (Some (regularity std))
         \<and> 0 \<le> regularity std
         \<and> (\<forall>s. std = Some s \<longrightarrow> regularity std = max 0 (1 - s / 7))"
    using C5_cycle_regularity[of sample_lib "mk_date 2023 3 1" scenario_A ?fs 0 14,
        THEN conjunct1, rule_format, OF conjI, OF f two] .
  then obtain std where a: "map_of ?fs ''cycle_std'' = Some std"
    and b: "map_of ?fs ''cycle_regularity'' = Some (Some (regularity std))"
    and c: "\<forall>s. std = Some s \<longrightarrow> regularity std = max 0 (1 - s / 7)"
    by blast
  from a have std: "std = Some (sqrt (7 / 3))" by simp
  with c have "regularity std = max 0 (1 - sqrt (7 / 3) / 7)" by blast
  with small have "regularity std = 1 - sqrt (7 / 3) / 7" by simp
  with b have "map_of ?fs ''cycle_regularity'' = Some (Some (1 - sqrt (7 / 3) / 7))" by simp
  moreover have "map_of ?fs ''cycle_std'' = Some (Some (sqrt (7 / 3)))" by simp
  moreover have "regularity (Some 14) \<le> regularity (Some 0)"
    using C5_cycle_regularity[of sample_lib "mk_date 2023 3 1" scenario_A ?fs 0 14] by simp
  moreover have "regularity (Some 0) = 1" "regularity (Some 14) = 0"
    by (simp_all add: regularity_Some)
  ultimately show ?thesis using f by blast
qed

section \<open>Lemmas about the PCOS predictor\<close>

lemma first_level_table:
  "get_risk_level s =
     (if 0 \<le> s \<and> s < 3 / 10 then ''low''
      else if 3 / 10 \<le> s \<and> s < 6 / 10 then ''moderate''
      else if 6 / 10 \<le> s \<and> s < 8 / 10 then ''high''
      else ''very_high'')"
  by (simp add: get_risk_level_def PCOS_RISK_LEVELS_def)

lemma calculate_confidence_bounds:
  "0 \<le> calculate_confidence p1 p2 \<and> calculate_confidence p1 p2 \<le> 1"
  by (simp add: calculate_confidence_def Let_def clip01_bounds)

lemma length_risk_scores_of:
  "length gb = length rf \<Longrightarrow> length (risk_scores_of rf gb) = length rf"
  by (simp add: risk_scores_of_def)

lemma risk_scores_of_nth:
  "length gb = length rf \<Longrightarrow> i < length rf \<Longrightarrow> risk_scores_of rf gb ! i = (rf ! i + gb ! i) / 2"
  by (simp add: risk_scores_of_def)

lemma pcos_predict_InrD:
  assumes "pcos_predict self X = (Inr out, self')"
  shows "\<exists>m X_engineered X_processed X_scaled rf_proba gb_proba.
     is_trained self \<and> model self = Some m
     \<and> pcos_engineer_features self X = (X_engineered, self')
     \<and> preprocess_data self' X_engineered = Inr X_processed
     \<and> traverse (scaler self') X_processed = Inr X_scaled
     \<and> traverse (random_forest m) X_scaled = Inr rf_proba
     \<and> traverse (gradient_boosting m) X_scaled = Inr gb_proba
     \<and> out = prediction_output X_engineered (model_version self') rf_proba gb_proba"
proof -
  from assms have tr: "is_trained self"
    by (auto simp: pcos_predict_def reraise_def split: if_splits)
  with assms obtain m where m: "model self = Some m"
    by (cases "model self") (auto simp: pcos_predict_def reraise_def)
  obtain X_engineered s1 where e0: "pcos_engineer_features self X = (X_engineered, s1)"
    by (cases "pcos_engineer_features self X")
  from assms tr m e0 have "s1 = self'"
    by (simp add: pcos_predict_def)
  with e0 have e: "pcos_engineer_features self X = (X_engineered, self')" by simp
  from assms tr m e have
    "bind (preprocess_data self' X_engineered) (\<lambda>X_processed.
       bind (traverse (scaler self') X_processed) (\<lambda>X_scaled.
       bind (traverse (random_forest m) X_scaled) (\<lambda>rf_proba.
       bind (traverse (gradient_boosting m) X_scaled) (\<lambda>gb_proba.
       Inr (prediction_output X_engineered (model_version self') rf_proba gb_proba))))) = Inr out"
    by (simp add: pcos_predict_def reraise_Inr)
  then show ?thesis
    using tr m e by (auto simp: bind_Inr)
qed

lemma prediction_output_items:
  assumes "length rf_proba = n" and "length gb_proba = n"
    and "item \<in> set (items_of (prediction_output X_engineered version rf_proba gb_proba))"
  shows "\<exists>i < n. risk_score item = (rf_proba ! i + gb_proba ! i) / 2
     \<and> risk_level item = get_risk_level ((rf_proba ! i + gb_proba ! i) / 2)
     \<and> risk_confidence item = calculate_confidence (rf_proba ! i) (gb_proba ! i)"
proof (cases "n = 1")
  case True
  with assms show ?thesis
    by (auto simp: prediction_output_def items_of_def Let_def length_risk_scores_of
          risk_scores_of_nth)
next
  case False
  with assms obtain i where
    i: "i < length (risk_scores_of rf_proba gb_proba)"
    and item: "item = \<lparr>risk_score = risk_scores_of rf_proba gb_proba ! i,
                       risk_level = get_risk_level (risk_scores_of rf_proba gb_proba ! i),
                       risk_confidence = calculate_confidence (rf_proba ! i) (gb_proba ! i)\<rparr>"
    by (auto simp: prediction_output_def items_of_def Let_def length_risk_scores_of
          in_set_enumerate_eq)
  from i have "i < n" using assms(1,2) by (simp add: length_risk_scores_of)
  then show ?thesis
    using item assms(1,2) by (auto simp: risk_scores_of_nth)
qed

lemma pcos_items:
  assumes "pcos_predict self X = (Inr out, self')" and "model self = Some m"
    and "item \<in> set (items_of out)"
  shows "\<exists>v p1 p2. random_forest m v = Inr p1 \<and> gradient_boosting m v = Inr p2
     \<and> risk_score item = (p1 + p2) / 2
     \<and> risk_level item = get_risk_level ((p1 + p2) / 2)
     \<and> risk_confidence item = calculate_confidence p1 p2"
proof -
  obtain X_engineered X_scaled rf_proba gb_proba where
    rf: "traverse (random_forest m) X_scaled = Inr rf_proba"
    and gb: "traverse (gradient_boosting m) X_scaled = Inr gb_proba"
    and out: "out = prediction_output X_engineered (model_version self') rf_proba gb_proba"
    using pcos_predict_InrD[OF assms(1)] assms(2) by auto
  have lrf: "length rf_proba = length X_scaled" using rf by (rule traverse_length)
  have lgb: "length gb_proba = length X_scaled" using gb by (rule traverse_length)
  obtain i where i: "i < length X_scaled"
    and props: "risk_score item = (rf_proba ! i + gb_proba ! i) / 2"
      "risk_level item = get_risk_level ((rf_proba ! i + gb_proba ! i) / 2)"
      "risk_confidence item = calculate_confidence (rf_proba ! i) (gb_proba ! i)"
    using prediction_output_items[OF lrf lgb] assms(3) out by blast
  have "random_forest m (X_scaled ! i) = Inr (rf_proba ! i)"
    using traverse_nth[OF rf i] .
  moreover have "gradient_boosting m (X_scaled ! i) = Inr (gb_proba ! i)"
    using traverse_nth[OF gb i] .
  ultimately show ?thesis using props by blast
qed

lemma preprocess_data_length:
  "preprocess_data self data = Inr rows \<Longrightarrow> length rows = nrows data"
  by (auto simp: preprocess_data_def reraise_Inr bind_Inr rows_of_def Let_def split: if_splits)

lemma prediction_output_nth:
  assumes "length gb_proba = length rf_proba"
  shows "length (items_of (prediction_output X_engineered version rf_proba gb_proba))
           = length rf_proba
     \<and> (\<forall>i < length rf_proba.
          items_of (prediction_output X_engineered version rf_proba gb_proba) ! i
            = \<lparr>risk_score = (rf_proba ! i + gb_proba ! i) / 2,
               risk_level = get_risk_level ((rf_proba ! i + gb_proba ! i) / 2),
               risk_confidence = calculate_confidence (rf_proba ! i) (gb_proba ! i)\<rparr>)"
proof (cases "length rf_proba = 1")
  case True
  with assms show ?thesis
    by (simp add: prediction_output_def items_of_def Let_def length_risk_scores_of
          risk_scores_of_nth)
next
  case False
  with assms show ?thesis
    by (simp add: prediction_output_def items_of_def Let_def length_risk_scores_of
          risk_scores_of_nth nth_enumerate_eq)
qed

lemma pcos_items_nth:
  assumes ok: "pcos_predict self X = (Inr out, self')" and m: "model self = Some m"
  shows "\<exists>X_engineered X_processed X_scaled.
     pcos_engineer_features self X = (X_engineered, self')
     \<and> preprocess_data self' X_engineered = Inr X_processed
     \<and> traverse (scaler self') X_processed = Inr X_scaled
     \<and> length X_scaled = nrows X_engineered
     \<and> length (items_of out) = nrows X_engineered
     \<and> (\<forall>i < nrows X_engineered. \<exists>p1 p2.
          scaler self' (X_processed ! i) = Inr (X_scaled ! i)
          \<and> random_forest m (X_scaled ! i) = Inr p1
          \<and> gradient_boosting m (X_scaled ! i) = Inr p2
          \<and> items_of out ! i
              = \<lparr>risk_score = (p1 + p2) / 2,
                 risk_level = get_risk_level ((p1 + p2) / 2),
                 risk_confidence = calculate_confidence p1 p2\<rparr>)"
proof -
  obtain X_engineered X_processed X_scaled rf_proba gb_proba where
    e: "pcos_engineer_features self X = (X_engineered, self')"
    and p: "preprocess_data self' X_engineered = Inr X_processed"
    and sc: "traverse (scaler self') X_processed = Inr X_scaled"
    and rf: "traverse (random_forest m) X_scaled = Inr rf_proba"
    and gb: "traverse (gradient_boosting m) X_scaled = Inr gb_proba"
    and out: "out = prediction_output X_engineered (model_version self') rf_proba gb_proba"
    using pcos_predict_InrD[OF ok] m by auto
  have lp: "length X_processed = nrows X_engineered" using p by (rule preprocess_data_length)
  have ls: "length X_scaled = nrows X_engineered" using traverse_length[OF sc] lp by simp
  have lrf: "length rf_proba = nrows X_engineered" using traverse_length[OF rf] ls by simp
  have lgb: "length gb_proba = length rf_proba" using traverse_length[OF gb] ls lrf by simp
  note po = prediction_output_nth[OF lgb, of X_engineered "model_version self'"]
  have len: "length (items_of out) = nrows X_engineered" using po out lrf by simp
  have "\<exists>p1 p2.
          scaler self' (X_processed ! i) = Inr (X_scaled ! i)
          \<and> random_forest m (X_scaled ! i) = Inr p1
          \<and> gradient_boosting m (X_scaled ! i) = Inr p2
          \<and> items_of out ! i
              = \<lparr>risk_score = (p1 + p2) / 2,
                 risk_level = get_risk_level ((p1 + p2) / 2),
                 risk_confidence = calculate_confidence p1 p2\<rparr>"
    if i: "i < nrows X_engineered" for i
  proof -
    from i lp have 1: "scaler self' (X_processed ! i) = Inr (X_scaled ! i)"
      using traverse_nth[OF sc, of i] by simp
    from i ls have 2: "random_forest m (X_scaled ! i) = Inr (rf_proba ! i)"
      using traverse_nth[OF rf, of i] by simp
    from i ls have 3: "gradient_boosting m (X_scaled ! i) = Inr (gb_proba ! i)"
      using traverse_nth[OF gb, of i] by simp
    from i lrf po out have 4: "items_of out ! i
              = \<lparr>risk_score = (rf_proba ! i + gb_proba ! i) / 2,
                 risk_level = get_risk_level ((rf_proba ! i + gb_proba ! i) / 2),
                 risk_confidence = calculate_confidence (rf_proba ! i) (gb_proba ! i)\<rparr>"
      by simp
    from 1 2 3 4 show ?thesis by blast
  qed
  with e p sc ls len show ?thesis by blast
qed

subsection \<open>Scenario B, evaluated\<close>

lemma scenario_B_features:
  "pcos_engineer_features self scenario_B =
     (scenario_B_engineered, self\<lparr>feature_columns := feature_columns self @ new_features\<rparr>)"
  by (simp add: pcos_engineer_features_def scenario_B_engineered_def scenario_B_def bind_def
        df_get_def df_set_def pd_cut_def nums_def lt_def gt_def astype_int_def Let_def)

lemma scenario_B_factors: "get_risk_factors (iloc scenario_B_engineered 0) = []"
  by (simp add: get_risk_factors_def iloc_def scenario_B_engineered_def scenario_B_def
        sample_get_def nums_def lt_def gt_def)

lemma scenario_B_nrows: "nrows scenario_B_engineered = 1"
  by (simp add: nrows_def scenario_B_engineered_def scenario_B_def nums_def)

lemma scenario_B_single:
  assumes "pcos_predict self scenario_B = (Inr out, self')"
  shows "\<exists>m v p1 p2. model self = Some m
     \<and> random_forest m v = Inr p1 \<and> gradient_boosting m v = Inr p2
     \<and> out = Single \<lparr>risk_score = (p1 + p2) / 2,
                      risk_level = get_risk_level ((p1 + p2) / 2),
                      risk_confidence = calculate_confidence p1 p2,
                      factors = [],
                      result_model_version = model_version self\<rparr>"
proof -
  obtain m X_engineered X_processed X_scaled rf_proba gb_proba where
    m: "model self = Some m"
    and e: "pcos_engineer_features self scenario_B = (X_engineered, self')"
    and p: "preprocess_data self' X_engineered = Inr X_processed"
    and sc: "traverse (scaler self') X_processed = Inr X_scaled"
    and rf: "traverse (random_forest m) X_scaled = Inr rf_proba"
    and gb: "traverse (gradient_boosting m) X_scaled = Inr gb_proba"
    and out: "out = prediction_output X_engineered (model_version self') rf_proba gb_proba"
    using pcos_predict_InrD[OF assms] by blast
  from e have X: "X_engineered = scenario_B_engineered"
    and s: "self' = self\<lparr>feature_columns := feature_columns self @ new_features\<rparr>"
    by (simp_all add: scenario_B_features)
  have "length X_processed = 1"
    using preprocess_data_length[OF p] X scenario_B_nrows by simp
  then have one: "length X_scaled = 1" using traverse_length[OF sc] by simp
  then have lrf: "length rf_proba = 1" and lgb: "length gb_proba = 1"
    using traverse_length[OF rf] traverse_length[OF gb] by simp_all
  have "random_forest m (X_scaled ! 0) = Inr (rf_proba ! 0)"
    using traverse_nth[OF rf, of 0] one by simp
  moreover have "gradient_boosting m (X_scaled ! 0) = Inr (gb_proba ! 0)"
    using traverse_nth[OF gb, of 0] one by simp
  moreover have "out = Single \<lparr>risk_score = (rf_proba ! 0 + gb_proba ! 0) / 2,
                      risk_level = get_risk_level ((rf_proba ! 0 + gb_proba ! 0) / 2),
                      risk_confidence = calculate_confidence (rf_proba ! 0) (gb_proba ! 0),
                      factors = [],
                      result_model_version = model_version self\<rparr>"
    using out X s lrf lgb
    by (simp add: prediction_output_def Let_def length_risk_scores_of risk_scores_of_nth
          scenario_B_factors)
  ultimately show ?thesis using m by blast
qed

lemma constant_pcos_model_fields:
  "is_trained (constant_pcos_model cols rf gb)"
  "model (constant_pcos_model cols rf gb)
     = Some \<lparr>random_forest = (\<lambda>_. Inr rf), gradient_boosting = (\<lambda>_. Inr gb)\<rparr>"
  "scaler (constant_pcos_model cols rf gb) = Inr"
  "feature_columns (constant_pcos_model cols rf gb) = cols"
  "model_version (constant_pcos_model cols rf gb) = ''1.0.0''"
  by (simp_all add: constant_pcos_model_def)

lemma traverse_Inr: "traverse Inr xs = Inr xs"
  by (induction xs) simp_all

lemma traverse_const: "traverse (\<lambda>_. Inr c) xs = Inr (map (\<lambda>_. c) xs)"
  by (induction xs) simp_all

lemma scenario_B_declared_columns:
  "pcos_predict (constant_pcos_model FEATURE_COLUMNS_pcos_risk rf gb) scenario_B =
     (Inl (RuntimeError ''Prediction failed: Data preprocessing failed: Missing required columns: {'symptom_count'}''),
      (constant_pcos_model FEATURE_COLUMNS_pcos_risk rf gb)
        \<lparr>feature_columns := FEATURE_COLUMNS_pcos_risk @ new_features\<rparr>)"
  apply (simp add: pcos_predict_def constant_pcos_model_fields scenario_B_features)
  apply (simp add: preprocess_data_def constant_pcos_model_fields FEATURE_COLUMNS_pcos_risk_def
      new_features_def scenario_B_engineered_def scenario_B_def reraise_def bind_def Let_def)
  done

lemma scenario_B_profile_columns:
  "pcos_predict (constant_pcos_model profile_columns rf gb) scenario_B =
     (Inr (Single \<lparr>risk_score = (rf + gb) / 2,
                   risk_level = get_risk_level ((rf + gb) / 2),
                   risk_confidence = calculate_confidence rf gb,
                   factors = [],
                   result_model_version = ''1.0.0''\<rparr>),
      (constant_pcos_model profile_columns rf gb)
        \<lparr>feature_columns := profile_columns @ new_features\<rparr>)"
proof -
  have p: "preprocess_data
        ((constant_pcos_model profile_columns rf gb)
           \<lparr>feature_columns := profile_columns @ new_features\<rparr>) scenario_B_engineered
      = Inr [[Some 25, Some (45 / 2), Some 28, Some 5, Some 3, Some 2, Some 3, Some 0,
              Some 1, Some 0, Some 1, Some 0, Some 1]]"
    by (simp add: preprocess_data_def constant_pcos_model_fields profile_columns_def
        new_features_def scenario_B_engineered_def scenario_B_def reraise_def bind_def Let_def
        df_get_def rows_of_def nrows_def nums_def fill_and_cast_def astype_int_def)
  show ?thesis
    by (simp add: pcos_predict_def constant_pcos_model_fields scenario_B_features p bind_def
        reraise_def traverse_Inr prediction_output_def risk_scores_of_def scenario_B_factors)
qed

section \<open>Claims about the PCOS predictor and about both predictors\<close>

text \<open>
  Claim C3. A PCOS prediction that returns carries one result for each row of the
  engineered frame, in order. The \<open>risk_score\<close> of the \<open>i\<close>-th result is the mean of the
  class-1 probabilities the two estimators gave for the \<open>i\<close>-th scaled row, it lies in
  [0,1] when the two probabilities do, and the \<open>risk_level\<close> is the bucket of that score.
  The same holds of the tail of \<^verbatim>\<open>predict\<close> for any two probability vectors of equal
  length. The buckets: low below 0.3, moderate from 0.3 and below 0.6, high from 0.6 and
  below 0.8, very_high from 0.8 up to and including 1.
\<close>

theorem C3_risk_score_and_level:
  "(pcos_predict self X = (Inr out, self') \<and> model self = Some m
    \<longrightarrow> (\<exists>X_engineered X_processed X_scaled.
           pcos_engineer_features self X = (X_engineered, self')
           \<and> preprocess_data self' X_engineered = Inr X_processed
           \<and> traverse (scaler self') X_processed = Inr X_scaled
           \<and> length (items_of out) = nrows X_engineered
           \<and> (\<forall>i < nrows X_engineered. \<exists>p1 p2.
                scaler self' (X_processed ! i) = Inr (X_scaled ! i)
                \<and> random_forest m (X_scaled ! i) = Inr p1
                \<and> gradient_boosting m (X_scaled ! i) = Inr p2
                \<and> risk_score (items_of out ! i) = (p1 + p2) / 2
                \<and> risk_level (items_of out ! i) = get_risk_level (risk_score (items_of out ! i))
                \<and> (0 \<le> p1 \<and> p1 \<le> 1 \<and> 0 \<le> p2 \<and> p2 \<le> 1
                   \<longrightarrow> 0 \<le> risk_score (items_of out ! i)
                       \<and> risk_score (items_of out ! i) \<le> 1))))
   \<and> (length gb_proba = length rf_proba
    \<longrightarrow> length (items_of (prediction_output frame version rf_proba gb_proba)) = length rf_proba
        \<and> (\<forall>i < length rf_proba.
             risk_score (items_of (prediction_output frame version rf_proba gb_proba) ! i)
               = (rf_proba ! i + gb_proba ! i) / 2
             \<and> risk_level (items_of (prediction_output frame version rf_proba gb_proba) ! i)
               = get_risk_level ((rf_proba ! i + gb_proba ! i) / 2)))
   \<and> (0 \<le> s \<and> s \<le> 1 \<longrightarrow>
        get_risk_level s =
          (if s < 3 / 10 then ''low'' else if s < 6 / 10 then ''moderate''
           else if s < 8 / 10 then ''high'' else ''very_high''))
   \<and> get_risk_level 1 = ''very_high''"
proof -
  have rows: "\<exists>X_engineered X_processed X_scaled.
           pcos_engineer_features self X = (X_engineered, self')
           \<and> preprocess_data self' X_engineered = Inr X_processed
           \<and> traverse (scaler self') X_processed = Inr X_scaled
           \<and> length (items_of out) = nrows X_engineered
           \<and> (\<forall>i < nrows X_engineered. \<exists>p1 p2.
                scaler self' (X_processed ! i) = Inr (X_scaled ! i)
                \<and> random_forest m (X_scaled ! i) = Inr p1
                \<and> gradient_boosting m (X_scaled ! i) = Inr p2
                \<and> risk_score (items_of out ! i) = (p1 + p2) / 2
                \<and> risk_level (items_of out ! i) = get_risk_level (risk_score (items_of out ! i))
                \<and> (0 \<le> p1 \<and> p1 \<le> 1 \<and> 0 \<le> p2 \<and> p2 \<le> 1
                   \<longrightarrow> 0 \<le> risk_score (items_of out ! i)
                       \<and> risk_score (items_of out ! i) \<le> 1))"
    if ok: "pcos_predict self X = (Inr out, self')" and m: "model self = Some m"
  proof -
    from pcos_items_nth[OF ok m] obtain X_engineered X_processed X_scaled where
      e: "pcos_engineer_features self X = (X_engineered, self')"
      and p: "preprocess_data self' X_engineered = Inr X_processed"
      and sc: "traverse (scaler self') X_processed = Inr X_scaled"
      and len: "length (items_of out) = nrows X_engineered"
      and items: "\<forall>i < nrows X_engineered. \<exists>p1 p2.
          scaler self' (X_processed ! i) = Inr (X_scaled ! i)
          \<and> random_forest m (X_scaled ! i) = Inr p1
          \<and> gradient_boosting m (X_scaled ! i) = Inr p2
          \<and> items_of out ! i
              = \<lparr>risk_score = (p1 + p2) / 2,
                 risk_level = get_risk_level ((p1 + p2) / 2),
                 risk_confidence = calculate_confidence p1 p2\<rparr>"
      by blast
    have "\<exists>p1 p2.
                scaler self' (X_processed ! i) = Inr (X_scaled ! i)
                \<and> random_forest m (X_scaled ! i) = Inr p1
                \<and> gradient_boosting m (X_scaled ! i) = Inr p2
                \<and> risk_score (items_of out ! i) = (p1 + p2) / 2
                \<and> risk_level (items_of out ! i) = get_risk_level (risk_score (items_of out ! i))
                \<and> (0 \<le> p1 \<and> p1 \<le> 1 \<and> 0 \<le> p2 \<and> p2 \<le> 1
                   \<longrightarrow> 0 \<le> risk_score (items_of out ! i)
                       \<and> risk_score (items_of out ! i) \<le> 1)"
      if i: "i < nrows X_engineered" for i
    proof -
      from items i obtain p1 p2 where
        1: "scaler self' (X_processed ! i) = Inr (X_scaled ! i)"
        and 2: "random_forest m (X_scaled ! i) = Inr p1"
        and 3: "gradient_boosting m (X_scaled ! i) = Inr p2"
        and 4: "items_of out ! i
              = \<lparr>risk_score = (p1 + p2) / 2,
                 risk_level = get_risk_level ((p1 + p2) / 2),
                 risk_confidence = calculate_confidence p1 p2\<rparr>"
        by blast
      from 4 have 5: "risk_score (items_of out ! i) = (p1 + p2) / 2" by simp
      from 4 have 6: "risk_level (items_of out ! i) = get_risk_level (risk_score (items_of out ! i))"
        by simp
      have 7: "0 \<le> p1 \<and> p1 \<le> 1 \<and> 0 \<le> p2 \<and> p2 \<le> 1
                   \<longrightarrow> 0 \<le> risk_score (items_of out ! i)
                       \<and> risk_score (items_of out ! i) \<le> 1"
        unfolding 5 by simp
      from 1 2 3 5 6 7 show ?thesis by blast
    qed
    with e p sc len show ?thesis by blast
  qed
  have tail: "length (items_of (prediction_output frame version rf_proba gb_proba)) = length rf_proba
        \<and> (\<forall>i < length rf_proba.
             risk_score (items_of (prediction_output frame version rf_proba gb_proba) ! i)
               = (rf_proba ! i + gb_proba ! i) / 2
             \<and> risk_level (items_of (prediction_output frame version rf_proba gb_proba) ! i)
               = get_risk_level ((rf_proba ! i + gb_proba ! i) / 2))"
    if "length gb_proba = length rf_proba"
    using prediction_output_nth[OF that, of frame version] by simp
  have table: "get_risk_level s =
          (if s < 3 / 10 then ''low'' else if s < 6 / 10 then ''moderate''
           else if s < 8 / 10 then ''high'' else ''very_high'')" if "0 \<le> s \<and> s \<le> 1"
    using that by (simp add: first_level_table)
  have one: "get_risk_level 1 = ''very_high''" by (simp add: first_level_table)
  show ?thesis
  proof (intro conjI impI)
    assume "pcos_predict self X = (Inr out, self') \<and> model self = Some m"
    then show "\<exists>X_engineered X_processed X_scaled.
           pcos_engineer_features self X = (X_engineered, self')
           \<and> preprocess_data self' X_engineered = Inr X_processed
           \<and> traverse (scaler self') X_processed = Inr X_scaled
           \<and> length (items_of out) = nrows X_engineered
           \<and> (\<forall>i < nrows X_engineered. \<exists>p1 p2.
                scaler self' (X_processed ! i) = Inr (X_scaled ! i)
                \<and> random_forest m (X_scaled ! i) = Inr p1
                \<and> gradient_boosting m (X_scaled ! i) = Inr p2
                \<and> risk_score (items_of out ! i) = (p1 + p2) / 2
                \<and> risk_level (items_of out ! i) = get_risk_level (risk_score (items_of out ! i))
                \<and> (0 \<le> p1 \<and> p1 \<le> 1 \<and> 0 \<le> p2 \<and> p2 \<le> 1
                   \<longrightarrow> 0 \<le> risk_score (items_of out ! i)
                       \<and> risk_score (items_of out ! i) \<le> 1))"
      using rows by blast
  next
    assume l: "length gb_proba = length rf_proba"
    from tail[OF l]
    show "length (items_of (prediction_output frame version rf_proba gb_proba)) = length rf_proba" ..
    from tail[OF l]
    show "\<forall>i < length rf_proba.
             risk_score (items_of (prediction_output frame version rf_proba gb_proba) ! i)
               = (rf_proba ! i + gb_proba ! i) / 2
             \<and> risk_level (items_of (prediction_output frame version rf_proba gb_proba) ! i)
               = get_risk_level ((rf_proba ! i + gb_proba ! i) / 2)" ..
  next
    assume "0 \<le> s \<and> s \<le> 1"
    then show "get_risk_level s =
          (if s < 3 / 10 then ''low'' else if s < 6 / 10 then ''moderate''
           else if s < 8 / 10 then ''high'' else ''very_high'')" by (rule table)
  next
    show "get_risk_level 1 = ''very_high''" by (rule one)
  qed
qed

text \<open>
  Witness: scenario B with estimators answering 0.2 and 0.3 gives one result, with score
  0.25 and level low; the probability vectors (0.2, 0.9) and (0.3, 0.7) give two results,
  with scores 0.25 and 0.8 and levels low and very_high.
\<close>

theorem C3_witness:
  "(\<exists>out s'. pcos_predict (constant_pcos_model profile_columns (1 / 5) (3 / 10)) scenario_B
                = (Inr out, s')
       \<and> length (items_of out) = 1
       \<and> risk_score (items_of out ! 0) = 1 / 4
       \<and> risk_level (items_of out ! 0) = ''low'')
   \<and> length (items_of (prediction_output scenario_B_engineered ''1.0.0''
               [1 / 5, 9 / 10] [3 / 10, 7 / 10])) = 2
   \<and> risk_score (items_of (prediction_output scenario_B_engineered ''1.0.0''
               [1 / 5, 9 / 10] [3 / 10, 7 / 10]) ! 0) = 1 / 4
   \<and> risk_level (items_of (prediction_output scenario_B_engineered ''1.0.0''
               [1 / 5, 9 / 10] [3 / 10, 7 / 10]) ! 0) = ''low''
   \<and> risk_score (items_of (prediction_output scenario_B_engineered ''1.0.0''
               [1 / 5, 9 / 10] [3 / 10, 7 / 10]) ! 1) = 4 / 5
   \<and> risk_level (items_of (prediction_output scenario_B_engineered ''1.0.0''
               [1 / 5, 9 / 10] [3 / 10, 7 / 10]) ! 1) = ''very_high''
   \<and> get_risk_level 0 = ''low'' \<and> get_risk_level (3 / 10) = ''moderate''
   \<and> get_risk_level (6 / 10) = ''high'' \<and> get_risk_level (8 / 10) = ''very_high''"
proof -
  let ?self = "constant_pcos_model profile_columns (1 / 5) (3 / 10)"
  let ?m = "\<lparr>random_forest = (\<lambda>_. Inr (1 / 5)), gradient_boosting = (\<lambda>_. Inr (3 / 10 :: real))\<rparr>"
  let ?r = "\<lparr>risk_score = (1 / 5 + 3 / 10) / 2,
             risk_level = get_risk_level ((1 / 5 + 3 / 10) / 2),
             risk_confidence = calculate_confidence (1 / 5) (3 / 10),
             factors = [], result_model_version = ''1.0.0''\<rparr>"
  let ?s' = "?self\<lparr>feature_columns := profile_columns @ new_features\<rparr>"
  let ?out = "Single ?r"
  let ?rf = "[1 / 5, 9 / 10 :: real]"
  let ?gb = "[3 / 10, 7 / 10 :: real]"
  have run: "pcos_predict ?self scenario_B = (Inr ?out, ?s')"
    by (rule scenario_B_profile_columns)
  have m: "model ?self = Some ?m" by (simp add: constant_pcos_model_fields)
  note inst = C3_risk_score_and_level[where self = ?self and X = scenario_B and out = ?out
      and self' = ?s' and m = ?m and rf_proba = ?rf and gb_proba = ?gb
      and frame = scenario_B_engineered and version = "''1.0.0''"]
  have levels: "get_risk_level 0 = ''low''" "get_risk_level (3 / 10) = ''moderate''"
    "get_risk_level (6 / 10) = ''high''" "get_risk_level (8 / 10) = ''very_high''"
    "get_risk_level (1 / 4) = ''low''" "get_risk_level (4 / 5) = ''very_high''"
    using inst[where s = 0] inst[where s = "3 / 10"] inst[where s = "6 / 10"]
      inst[where s = "8 / 10"] inst[where s = "1 / 4"] inst[where s = "4 / 5"]
    by simp_all
  from inst[where s = 0, THEN conjunct1, rule_format, OF conjI, OF run m]
  obtain X_engineered X_processed X_scaled where
    e: "pcos_engineer_features ?self scenario_B = (X_engineered, ?s')"
    and len: "length (items_of ?out) = nrows X_engineered"
    and items: "\<forall>i < nrows X_engineered. \<exists>p1 p2.
                scaler ?s' (X_processed ! i) = Inr (X_scaled ! i)
                \<and> random_forest ?m (X_scaled ! i) = Inr p1
                \<and> gradient_boosting ?m (X_scaled ! i) = Inr p2
                \<and> risk_score (items_of ?out ! i) = (p1 + p2) / 2
                \<and> risk_level (items_of ?out ! i) = get_risk_level (risk_score (items_of ?out ! i))
                \<and> (0 \<le> p1 \<and> p1 \<le> 1 \<and> 0 \<le> p2 \<and> p2 \<le> 1
                   \<longrightarrow> 0 \<le> risk_score (items_of ?out ! i)
                       \<and> risk_score (items_of ?out ! i) \<le> 1)"
    by blast
  from e have "X_engineered = scenario_B_engineered" by (simp add: scenario_B_features)
  then have n: "nrows X_engineered = 1" by (simp add: scenario_B_nrows)
  from items n obtain p1 p2 where
    p: "random_forest ?m (X_scaled ! 0) = Inr p1" "gradient_boosting ?m (X_scaled ! 0) = Inr p2"
    and sc: "risk_score (items_of ?out ! 0) = (p1 + p2) / 2"
    and lv: "risk_level (items_of ?out ! 0) = get_risk_level (risk_score (items_of ?out ! 0))"
    and bd: "0 \<le> p1 \<and> p1 \<le> 1 \<and> 0 \<le> p2 \<and> p2 \<le> 1
                   \<longrightarrow> 0 \<le> risk_score (items_of ?out ! 0)
                       \<and> risk_score (items_of ?out ! 0) \<le> 1"
    by auto
  from p have p12: "p1 = 1 / 5" "p2 = 3 / 10" by simp_all
  from sc p12 have sc': "risk_score (items_of ?out ! 0) = 1 / 4" by simp
  have lv': "risk_level (items_of ?out ! 0) = ''low''"
    using lv unfolding sc' levels(5) .
  from bd p12 have "0 \<le> risk_score (items_of ?out ! 0) \<and> risk_score (items_of ?out ! 0) \<le> 1"
    by simp
  from len n have len': "length (items_of ?out) = 1" by simp
  have first: "\<exists>out s'. pcos_predict ?self scenario_B = (Inr out, s')
       \<and> length (items_of out) = 1
       \<and> risk_score (items_of out ! 0) = 1 / 4
       \<and> risk_level (items_of out ! 0) = ''low''"
    using run len' sc' lv' by blast
  let ?po = "items_of (prediction_output scenario_B_engineered ''1.0.0'' ?rf ?gb)"
  have l2: "length ?gb = length ?rf" by simp
  note tail = inst[where s = 0, THEN conjunct2, THEN conjunct1, rule_format, OF l2]
  from tail have bl: "length ?po = length ?rf" ..
  from tail have bi: "\<forall>i < length ?rf.
      risk_score (?po ! i) = (?rf ! i + ?gb ! i) / 2
      \<and> risk_level (?po ! i) = get_risk_level ((?rf ! i + ?gb ! i) / 2)" ..
  have b0: "risk_score (?po ! 0) = (?rf ! 0 + ?gb ! 0) / 2
      \<and> risk_level (?po ! 0) = get_risk_level ((?rf ! 0 + ?gb ! 0) / 2)"
    using bi[rule_format, of 0] by simp
  have b1: "risk_score (?po ! 1) = (?rf ! 1 + ?gb ! 1) / 2
      \<and> risk_level (?po ! 1) = get_risk_level ((?rf ! 1 + ?gb ! 1) / 2)"
    using bi[rule_format, of 1] by simp
  have v0: "(?rf ! 0 + ?gb ! 0) / 2 = 1 / 4" by simp
  have v1: "(?rf ! 1 + ?gb ! 1) / 2 = 4 / 5" by simp
  have batch: "length ?po = 2"
    "risk_score (?po ! 0) = 1 / 4" "risk_level (?po ! 0) = ''low''"
    "risk_score (?po ! 1) = 4 / 5" "risk_level (?po ! 1) = ''very_high''"
    using bl b0 b1 unfolding v0 v1 levels(5,6) by simp_all
  from first batch levels(1-4) show ?thesis by blast
qed

text \<open>
  Claim C6. The confidence of every returned prediction of either predictor lies in
  [0,1], whatever the estimators return, also when the raw agreement term is negative.
\<close>

theorem C6_confidence_in_unit_interval:
  "(cycle_predict lib now cself cycles = Inr r \<longrightarrow>
      (\<exists>c. confidence r = Some c \<and> 0 \<le> c \<and> c \<le> 1))
   \<and> (pcos_predict self X = (Inr out, self') \<longrightarrow>
        (\<forall>item \<in> set (items_of out). 0 \<le> risk_confidence item \<and> risk_confidence item \<le> 1))
   \<and> 0 \<le> calculate_confidence p1 p2 \<and> calculate_confidence p1 p2 \<le> 1"
proof -
  have cyc: "\<exists>c. confidence r = Some c \<and> 0 \<le> c \<and> c \<le> 1"
    if ok: "cycle_predict lib now cself cycles = Inr r"
  proof -
    obtain features rf_pred lr_pred reg where
      f: "cycle_engineer_features lib now cycles = Inr features"
      and g: "getitem features ''cycle_regularity'' = Inr reg"
      and c: "confidence r = map_option
          (\<lambda>x. clip01 ((1 - \<bar>rf_pred - lr_pred\<bar> / max (max rf_pred lr_pred) 1 + x) / 2)) reg"
      using cycle_predict_InrD[OF ok] by blast
    obtain x where "map_of features ''cycle_regularity'' = Some (Some x)"
      using cycle_engineer_features_InrD[OF f] by blast
    with g have "reg = Some x" by (simp add: getitem_def)
    with c show ?thesis using clip01_bounds by simp
  qed
  have pc: "0 \<le> risk_confidence item \<and> risk_confidence item \<le> 1"
    if ok: "pcos_predict self X = (Inr out, self')" and item: "item \<in> set (items_of out)" for item
  proof -
    obtain m where m: "model self = Some m" using pcos_predict_InrD[OF ok] by blast
    obtain q1 q2 where "risk_confidence item = calculate_confidence q1 q2"
      using pcos_items[OF ok m item] by blast
    then show ?thesis using calculate_confidence_bounds by simp
  qed
  show ?thesis using cyc pc calculate_confidence_bounds by blast
qed

text \<open>
  Estimators that answer -10 and 10 give a raw agreement of -1; the confidence is
  clamped to 0. PCOS estimators that answer 0.9 and 0.1 give confidence 0.1.
\<close>

theorem C6_witness:
  "(\<exists>r. cycle_predict sample_lib (mk_date 2023 3 1) (constant_cycle_model (- 10) 10) scenario_A = Inr r
       \<and> 1 - \<bar>- 10 - 10\<bar> / max (max (- 10) 10) (1 :: real) = - 1
       \<and> confidence r = Some 0
       \<and> (\<exists>c. confidence r = Some c \<and> 0 \<le> c \<and> c \<le> 1))
   \<and> (\<exists>out s'. pcos_predict (constant_pcos_model profile_columns (9 / 10) (1 / 10)) scenario_B = (Inr out, s')
       \<and> list_all (\<lambda>item. risk_confidence item = 1 / 10 \<and> 0 \<le> risk_confidence item
                      \<and> risk_confidence item \<le> 1) (items_of out))"
proof -
  obtain r where r: "cycle_predict sample_lib (mk_date 2023 3 1) (constant_cycle_model (- 10) 10) scenario_A = Inr r"
    and c: "confidence r = Some (clip01 ((1 - \<bar>- 10 - 10\<bar> / max (max (- 10) 10) 1
                                      + regularity (Some (sqrt (7 / 3)))) / 2))"
    using scenario_A_predict[of "mk_date 2023 3 1" "- 10" 10] by blast
  have "regularity (Some (sqrt (7 / 3))) \<le> 1"
    by (simp add: regularity_Some)
  then have "clip01 ((1 - \<bar>- 10 - 10\<bar> / max (max (- 10) 10) 1
                                      + regularity (Some (sqrt (7 / 3)))) / 2) = 0"
    by (simp add: clip01_def)
  with c have c0: "confidence r = Some 0" by simp
  let ?self = "constant_pcos_model profile_columns (9 / 10) (1 / 10)"
  let ?out = "Single \<lparr>risk_score = (9 / 10 + 1 / 10) / 2,
             risk_level = get_risk_level ((9 / 10 + 1 / 10) / 2),
             risk_confidence = calculate_confidence (9 / 10) (1 / 10),
             factors = [], result_model_version = ''1.0.0''\<rparr>"
  let ?s' = "?self\<lparr>feature_columns := profile_columns @ new_features\<rparr>"
  have run: "pcos_predict ?self scenario_B = (Inr ?out, ?s')"
    by (rule scenario_B_profile_columns)
  note c6 = C6_confidence_in_unit_interval[of sample_lib "mk_date 2023 3 1"
      "constant_cycle_model (- 10) 10" scenario_A r ?self scenario_B ?out ?s' "9 / 10" "1 / 10"]
  have bounded: "\<exists>c. confidence r = Some c \<and> 0 \<le> c \<and> c \<le> 1"
    using c6[THEN conjunct1, rule_format, OF r] .
  have in_unit: "\<forall>item \<in> set (items_of ?out). 0 \<le> risk_confidence item \<and> risk_confidence item \<le> 1"
    using c6[THEN conjunct2, THEN conjunct1, rule_format, OF run] by blast
  have "calculate_confidence (9 / 10) (1 / 10) = 1 / 10"
    by (simp add: calculate_confidence_def clip01_def)
  with in_unit have items: "list_all (\<lambda>item. risk_confidence item = 1 / 10 \<and> 0 \<le> risk_confidence item
                      \<and> risk_confidence item \<le> 1) (items_of ?out)"
    unfolding list_all_iff by (simp add: items_of_def)
  have raw: "1 - \<bar>- 10 - 10\<bar> / max (max (- 10) 10) (1 :: real) = - 1" by simp
  show ?thesis using run r c0 bounded items raw by blast
qed

subsection \<open>The feature-column list\<close>

lemma map_of_df_set:
  "map_of (df_set df n c) k = (if k = n then Some c else map_of df k)"
proof (cases "n \<in> set (map fst df)")
  case True
  have "map_of (map (\<lambda>(k', c'). if k' = n then (k', c) else (k', c')) df) k =
          (if k = n then map_option (\<lambda>_. c) (map_of df k) else map_of df k)"
    by (induction df) auto
  moreover from True have "map_of df n \<noteq> None"
    by (simp add: map_of_eq_None_iff)
  ultimately show ?thesis using True by (auto simp: df_set_def)
next
  case False
  then have "map_of df n = None" by (simp add: map_of_eq_None_iff)
  with False show ?thesis by (auto simp: df_set_def map_add_def split: option.splits)
qed

lemma df_get_df_set:
  "df_get (df_set df n c) k = (if k = n then Inr c else df_get df k)"
  by (simp add: df_get_def map_of_df_set)

lemma df_get_present: "k \<in> fst ` set df \<Longrightarrow> \<exists>col. df_get df k = Inr col"
  by (cases "map_of df k") (auto simp: df_get_def map_of_eq_None_iff)

lemma pcos_engineer_features_appends:
  assumes "set [''bmi'', ''cycle_length'', ''period_length'', ''exercise_frequency'',
             ''stress_level'', ''sleep_quality'', ''age''] \<subseteq> fst ` set X"
  shows "feature_columns (snd (pcos_engineer_features self X)) = feature_columns self @ new_features"
proof -
  obtain bmi cl pl ex st sl age where
    "df_get X ''bmi'' = Inr bmi" "df_get X ''cycle_length'' = Inr cl"
    "df_get X ''period_length'' = Inr pl" "df_get X ''exercise_frequency'' = Inr ex"
    "df_get X ''stress_level'' = Inr st" "df_get X ''sleep_quality'' = Inr sl"
    "df_get X ''age'' = Inr age"
    using assms df_get_present[of _ X] by (metis insert_subset list.simps(15))
  then show ?thesis
    by (simp add: pcos_engineer_features_def bind_def df_get_df_set Let_def)
qed

lemma pcos_predict_appends:
  assumes "is_trained self" and "model self = Some m"
    and "set [''bmi'', ''cycle_length'', ''period_length'', ''exercise_frequency'',
             ''stress_level'', ''sleep_quality'', ''age''] \<subseteq> fst ` set X"
  shows "feature_columns (snd (pcos_predict self X)) = feature_columns self @ new_features"
  using assms(1,2) pcos_engineer_features_appends[OF assms(3), of self]
  by (simp add: pcos_predict_def split_beta)

text \<open>
  Claim C8 fails on the code: it is the defect the specification itself names. A call
  of \<^verbatim>\<open>predict\<close> leaves the instance with five more feature columns, and the next call
  with the same input starts from that longer list and appends five more.
\<close>

theorem C8_predict_changes_feature_columns:
  "feature_columns (constant_pcos_model profile_columns (1 / 5) (3 / 10)) = profile_columns
   \<and> feature_columns (snd (pcos_predict (constant_pcos_model profile_columns (1 / 5) (3 / 10))
        scenario_B)) = profile_columns @ new_features
   \<and> feature_columns (snd (pcos_predict
        (snd (pcos_predict (constant_pcos_model profile_columns (1 / 5) (3 / 10)) scenario_B))
        scenario_B)) = profile_columns @ new_features @ new_features
   \<and> profile_columns @ new_features \<noteq> profile_columns"
proof -
  let ?self = "constant_pcos_model profile_columns (1 / 5) (3 / 10)"
  let ?s1 = "?self\<lparr>feature_columns := profile_columns @ new_features\<rparr>"
  have cols: "set [''bmi'', ''cycle_length'', ''period_length'', ''exercise_frequency'',
             ''stress_level'', ''sleep_quality'', ''age''] \<subseteq> fst ` set scenario_B"
    by (simp add: scenario_B_def)
  have one: "snd (pcos_predict ?self scenario_B) = ?s1"
    by (simp add: scenario_B_profile_columns)
  have "is_trained ?s1" "model ?s1 = model ?self"
    by (simp_all add: constant_pcos_model_fields)
  then have two: "feature_columns (snd (pcos_predict ?s1 scenario_B))
      = feature_columns ?s1 @ new_features"
    using pcos_predict_appends[OF _ _ cols, of ?s1] by (simp add: constant_pcos_model_fields)
  show ?thesis
    using one two by (simp add: constant_pcos_model_fields new_features_def)
qed

subsection \<open>Scenario B on the default model\<close>

lemma default_pcos_model_fields:
  "is_trained (default_pcos_model rf gb)"
  "model (default_pcos_model rf gb)
     = Some \<lparr>random_forest = (\<lambda>_. Inr rf), gradient_boosting = (\<lambda>_. Inr gb)\<rparr>"
  "scaler (default_pcos_model rf gb) = fitted_scaler (length FEATURE_COLUMNS_pcos_risk)"
  "feature_columns (default_pcos_model rf gb) = FEATURE_COLUMNS_pcos_risk"
  "model_version (default_pcos_model rf gb) = ''1.0.0''"
  by (simp_all add: default_pcos_model_def)

lemma scenario_B_default_model:
  "pcos_predict (default_pcos_model rf gb) scenario_B =
     (Inl (RuntimeError ''Prediction failed: Data preprocessing failed: Missing required columns: {'symptom_count'}''),
      (default_pcos_model rf gb)\<lparr>feature_columns := FEATURE_COLUMNS_pcos_risk @ new_features\<rparr>)"
  apply (simp add: pcos_predict_def default_pcos_model_fields scenario_B_features)
  apply (simp add: preprocess_data_def default_pcos_model_fields FEATURE_COLUMNS_pcos_risk_def
      new_features_def scenario_B_engineered_def scenario_B_def reraise_def bind_def Let_def)
  done

lemma scenario_B_with_symptom_count_features:
  "pcos_engineer_features self scenario_B_with_symptom_count =
     (scenario_B_with_symptom_count @
        [(''bmi_category'', NumCol [Some 1]), (''cycle_irregular'', NumCol [Some 0]),
         (''period_category'', NumCol [Some 1]), (''lifestyle_risk'', NumCol [Some 0]),
         (''age_group'', NumCol [Some 1])],
      self\<lparr>feature_columns := feature_columns self @ new_features\<rparr>)"
  by (simp add: pcos_engineer_features_def scenario_B_with_symptom_count_def scenario_B_def
        bind_def df_get_def df_set_def pd_cut_def nums_def lt_def gt_def astype_int_def Let_def)

lemma scenario_B_with_symptom_count_default_model:
  "pcos_predict (default_pcos_model rf gb) scenario_B_with_symptom_count =
     (Inl (RuntimeError ''Prediction failed: X has 14 features, but StandardScaler is expecting 9 features as input.''),
      (default_pcos_model rf gb)\<lparr>feature_columns := FEATURE_COLUMNS_pcos_risk @ new_features\<rparr>)"
proof -
  have p: "preprocess_data
        ((default_pcos_model rf gb)\<lparr>feature_columns := FEATURE_COLUMNS_pcos_risk @ new_features\<rparr>)
        (scenario_B_with_symptom_count @
        [(''bmi_category'', NumCol [Some 1]), (''cycle_irregular'', NumCol [Some 0]),
         (''period_category'', NumCol [Some 1]), (''lifestyle_risk'', NumCol [Some 0]),
         (''age_group'', NumCol [Some 1])])
      = Inr [[Some 25, Some (45 / 2), Some 28, Some 5, Some 3, Some 2, Some 3, Some 0, Some 0,
              Some 1, Some 0, Some 1, Some 0, Some 1]]"
    by (simp add: preprocess_data_def default_pcos_model_fields FEATURE_COLUMNS_pcos_risk_def
        new_features_def scenario_B_with_symptom_count_def scenario_B_def reraise_def bind_def
        Let_def df_get_def rows_of_def nrows_def nums_def fill_and_cast_def astype_int_def)
  have n: "str_nat 14 = ''14''" "str_nat 9 = ''9''"
    by (simp_all add: str_nat_two str_nat_small)
  have l9: "length FEATURE_COLUMNS_pcos_risk = 9"
    by (simp add: FEATURE_COLUMNS_pcos_risk_def)
  have l14: "length [Some 25, Some (45 / 2), Some 28, Some 5, Some 3, Some 2, Some 3, Some 0,
         Some 0, Some 1, Some 0, Some 1, Some 0, Some (1::real)] = 14"
    by simp
  have s: "fitted_scaler (length FEATURE_COLUMNS_pcos_risk)
        [Some 25, Some (45 / 2), Some 28, Some 5, Some 3, Some 2, Some 3, Some 0, Some 0,
         Some 1, Some 0, Some 1, Some 0, Some 1]
      = Inl (ValueError ''X has 14 features, but StandardScaler is expecting 9 features as input.'')"
    unfolding fitted_scaler_def l9 l14 n by simp
  show ?thesis
    by (simp add: pcos_predict_def default_pcos_model_fields
        scenario_B_with_symptom_count_features p bind_def reraise_def s)
qed

lemma pcos_engineer_features_scaler:
  "scaler (snd (pcos_engineer_features self X)) = scaler self"
  by (simp add: pcos_engineer_features_def split: sum.splits)

lemma length_rows_of: "\<forall>r \<in> set (rows_of n cols). length r = length cols"
  by (simp add: rows_of_def)

lemma preprocess_data_width:
  assumes "preprocess_data self data = Inr rows" and "r \<in> set rows"
  shows "length r = length (feature_columns self)"
proof -
  from assms(1) obtain processed where
    t: "traverse (df_get data) (feature_columns self) = Inr processed"
    and rows: "rows = rows_of (nrows data) (map fill_and_cast processed)"
    by (auto simp: preprocess_data_def reraise_Inr bind_Inr Let_def split: if_splits)
  from traverse_length[OF t] rows assms(2) show ?thesis
    using length_rows_of[of "nrows data" "map fill_and_cast processed"] by simp
qed

text \<open>
  A scaler fitted on as many columns as the instance lists, which is what \<^verbatim>\<open>train\<close> and
  \<^verbatim>\<open>_initialize_default_model\<close> build, refuses every engineered row: \<^verbatim>\<open>engineer_features\<close>
  has made the list five names longer by the time the rows are selected.
\<close>

lemma pcos_predict_raises_at_fitted_width:
  assumes sc: "scaler self = fitted_scaler (length (feature_columns self))"
    and cols: "set [''bmi'', ''cycle_length'', ''period_length'', ''exercise_frequency'',
             ''stress_level'', ''sleep_quality'', ''age''] \<subseteq> fst ` set X"
    and rows: "0 < nrows (fst (pcos_engineer_features self X))"
  shows "\<exists>e. fst (pcos_predict self X) = Inl e"
proof (cases "fst (pcos_predict self X)")
  case (Inl e)
  then show ?thesis by blast
next
  case (Inr out)
  then have ok: "pcos_predict self X = (Inr out, snd (pcos_predict self X))"
    by (metis prod.collapse)
  let ?s' = "snd (pcos_predict self X)"
  from pcos_predict_InrD[OF ok] obtain X_engineered X_processed X_scaled where
    e: "pcos_engineer_features self X = (X_engineered, ?s')"
    and p: "preprocess_data ?s' X_engineered = Inr X_processed"
    and t: "traverse (scaler ?s') X_processed = Inr X_scaled"
    by blast
  from e have fc: "feature_columns ?s' = feature_columns self @ new_features"
    using pcos_engineer_features_appends[OF cols, of self] by simp
  from e have s: "scaler ?s' = fitted_scaler (length (feature_columns self))"
    using pcos_engineer_features_scaler[of self X] sc by simp
  from e rows have n: "0 < nrows X_engineered" by simp
  with preprocess_data_length[OF p] have i: "0 < length X_processed" by simp
  then have "X_processed ! 0 \<in> set X_processed" by simp
  from preprocess_data_width[OF p this] fc
  have w: "length (X_processed ! 0) = length (feature_columns self) + 5"
    by (simp add: new_features_def)
  from traverse_nth[OF t i] s
  have "fitted_scaler (length (feature_columns self)) (X_processed ! 0) = Inr (X_scaled ! 0)"
    by simp
  with w show ?thesis by (simp add: fitted_scaler_def)
qed

text \<open>
  Claim C7 fails on the code. Feature engineering does give the profile of scenario B the
  derived fields \<open>bmi_category = 1\<close>, \<open>cycle_irregular = 0\<close>, \<open>period_category = 1\<close>,
  \<open>lifestyle_risk = 0\<close> and \<open>age_group = 1\<close>, but the prediction raises instead of returning
  a risk level: the declared feature columns name \<open>symptom_count\<close>, which the profile
  lacks, and with that column supplied the scaler, fitted on the nine declared columns,
  is handed the fourteen columns that the list names after \<^verbatim>\<open>engineer_features\<close>.
\<close>

theorem C7_scenario_B_prediction_raises:
  "fst (pcos_engineer_features (default_pcos_model 0 1) scenario_B) = scenario_B_engineered
   \<and> fst (pcos_predict (default_pcos_model 0 1) scenario_B)
       = Inl (RuntimeError ''Prediction failed: Data preprocessing failed: Missing required columns: {'symptom_count'}'')
   \<and> fst (pcos_predict (default_pcos_model 0 1) scenario_B_with_symptom_count)
       = Inl (RuntimeError ''Prediction failed: X has 14 features, but StandardScaler is expecting 9 features as input.'')"
  by (simp add: scenario_B_features scenario_B_default_model
        scenario_B_with_symptom_count_default_model)

subsection \<open>Derived cycle lengths\<close>

lemma start_dates_make_rows:
  "length cs = length ts \<Longrightarrow> length ps = length ts
   \<Longrightarrow> map row_start_date (make_rows ts cs ps) = ts"
  by (induction ts cs ps rule: make_rows.induct) simp_all

text \<open>
  What the code does for a history in which no record has a \<open>cycle_length\<close>: the rows
  are in ascending date order, the first length is 28 and every other one is the
  number of days since the previous row.
\<close>

lemma cycle_lengths_derived_when_all_absent:
  assumes ok: "process_cycle_data lib cycles = Inr df"
    and absent: "list_all (\<lambda>c. cycle_length c = Absent) cycles"
  shows "sorted (map row_start_date df)
     \<and> map row_cycle_length df =
         Some 28 # map (\<lambda>d. Some (of_int d)) (diff_days (map row_start_date df))"
proof -
  from ok have ne: "cycles \<noteq> []"
    by (auto simp: process_cycle_data_def reraise_Inr split: if_splits)
  with ok obtain dates where d: "traverse (\<lambda>c. to_datetime lib (start_date c)) cycles = Inr dates"
    and df: "df = make_rows (map fst (sort_key fst (zip dates cycles)))
                    (cycle_length_column (sort_key fst (zip dates cycles)))
                    (period_length_column (sort_key fst (zip dates cycles)))"
    by (auto simp: process_cycle_data_def reraise_Inr bind_Inr Let_def)
  let ?S = "sort_key fst (zip dates cycles)"
  have len: "length dates = length cycles" using d by (rule traverse_length)
  then have Sne: "?S \<noteq> []" using ne by (cases dates; cases cycles) auto
  have starts: "map row_start_date df = map fst ?S"
    by (simp add: df start_dates_make_rows length_cycle_length_column length_period_length_column)
  have lens: "map row_cycle_length df = cycle_length_column ?S"
    by (simp add: df cycle_lengths_make_rows length_cycle_length_column length_period_length_column)
  have "\<And>t c. (t, c) \<in> set ?S \<Longrightarrow> cycle_length c = Absent"
    using absent by (auto simp: list_all_iff dest: set_zip_rightD)
  then have all: "list_all (\<lambda>(t, c). cycle_length c = Absent) ?S"
    by (auto simp: list_all_iff)
  have "cycle_length_column ?S = Some 28 # map (\<lambda>d. Some (of_int d)) (diff_days (map fst ?S))"
    using all Sne by (cases ?S) (simp_all add: cycle_length_column_def)
  moreover have "sorted (map fst ?S)" by (rule sorted_sort_key)
  ultimately show ?thesis using starts lens by simp
qed

text \<open>
  Claim C9 fails on the code for a mixed history. The first record supplies 28, the
  second, thirty days later, supplies nothing: its length stays missing (NaN) instead
  of becoming 30. When neither record supplies a length, the second one does get 30.
\<close>

theorem C9_mixed_history_keeps_missing_length:
  "map_sum id (map row_cycle_length) (process_cycle_data sample_lib mixed_cycles)
     = Inr [Some 28, None]
   \<and> map_sum id (map row_cycle_length)
       (process_cycle_data sample_lib (map (\<lambda>c. c\<lparr>cycle_length := Absent\<rparr>) mixed_cycles))
     = Inr [Some 28, Some 30]"
  by (simp add: process_cycle_data_def mixed_cycles_def sample_lib_def bind_def reraise_def
        date_defs cycle_length_column_def period_length_column_def)

section \<open>Claims about the validator\<close>

lemma mem_nonempty: "e \<in> set xs \<Longrightarrow> xs \<noteq> []"
  by auto

lemma traverse_enumerate_nth:
  "traverse (\<lambda>(i, x). f i x) (enumerate n xs) = Inr ys \<Longrightarrow> i < length xs
   \<Longrightarrow> f (n + i) (xs ! i) = Inr (ys ! i) \<and> length ys = length xs"
  using traverse_nth[of "\<lambda>(i, x). f i x" "enumerate n xs" ys i]
    traverse_length[of "\<lambda>(i, x). f i x" "enumerate n xs" ys]
  by (simp add: nth_enumerate_eq)

lemma traverse_all_Inr:
  "(\<And>x. x \<in> set xs \<Longrightarrow> f x = Inr (g x)) \<Longrightarrow> traverse f xs = Inr (map g xs)"
  by (induction xs) auto

lemma traverse_returns:
  "(\<And>x. x \<in> set xs \<Longrightarrow> \<exists>y. f x = Inr y) \<Longrightarrow> \<exists>ys. traverse f xs = Inr ys"
proof (induction xs)
  case Nil
  then show ?case by simp
next
  case (Cons x xs)
  then obtain y ys where "f x = Inr y" "traverse f xs = Inr ys" by (meson list.set_intros)
  then show ?case by simp
qed

lemma try_date_Inr:
  "try_date lib v message = Inr es \<Longrightarrow> es = [] \<or> es = [message]"
  by (auto simp: try_date_def split: sum.splits exc.splits)

lemma try_date_rejects:
  assumes "try_date lib v message = Inr es"
    and "\<nexists>s t. v = PStr s \<and> fromisoformat lib (replace_Z s) = Inr t"
  shows "es = [message]"
  using assms by (cases v) (auto simp: try_date_def parse_date_def split: sum.splits exc.splits)

lemma try_date_accepts:
  "fromisoformat lib (replace_Z s) = Inr t \<Longrightarrow> try_date lib (PStr s) message = Inr []"
  by (simp add: try_date_def parse_date_def)

lemma try_date_returns:
  assumes "\<And>s e. v = PStr s \<Longrightarrow> fromisoformat lib (replace_Z s) = Inl e \<Longrightarrow> \<exists>m. e = ValueError m"
  shows "\<exists>es. try_date lib v message = Inr es"
proof (cases v)
  case (PStr s)
  show ?thesis
  proof (cases "fromisoformat lib (replace_Z s)")
    case (Inl e)
    with assms[OF PStr] obtain m where "e = ValueError m" by blast
    with Inl PStr show ?thesis by (simp add: try_date_def parse_date_def)
  next
    case (Inr t)
    with PStr show ?thesis by (simp add: try_date_def parse_date_def)
  qed
qed (simp_all add: try_date_def parse_date_def)

lemma try_number_returns:
  assumes "\<And>e. converted = Inl e \<Longrightarrow> \<exists>m. e = ValueError m \<or> e = TypeError m"
  shows "\<exists>es. try_number converted in_range m1 m2 = Inr es"
proof (cases converted)
  case (Inl e)
  with assms obtain m where "e = ValueError m \<or> e = TypeError m" by blast
  with Inl show ?thesis by (auto simp: try_number_def)
qed (simp add: try_number_def)

lemma cycle_errors_date:
  assumes ret: "cycle_errors lib i c = Inr es"
    and bad: "\<nexists>s t. map_of c ''start_date'' = Some (PStr s) \<and> fromisoformat lib (replace_Z s) = Inr t"
  shows "''Cycle '' @ str_nat (i + 1) @ '': Missing required field: start_date'' \<in> set es
         \<or> ''Cycle '' @ str_nat (i + 1) @ '': Invalid date format for start_date'' \<in> set es"
proof (cases "map_of c ''start_date''")
  case None
  with ret show ?thesis
    by (auto simp: cycle_errors_def bind_Inr missing_field_def required_fields_cycle_prediction_def)
next
  case (Some v)
  from ret obtain des les where
    d: "try_date lib v (''Cycle '' @ str_nat (i + 1) @ '': Invalid date format for start_date'') = Inr des"
    and es: "es = map (\<lambda>field. ''Cycle '' @ str_nat (i + 1) @ '': Missing required field: '' @ field)
            (filter (missing_field c) required_fields_cycle_prediction) @ des @ les"
    unfolding cycle_errors_def bind_Inr Some by auto
  from bad Some have "\<nexists>s t. v = PStr s \<and> fromisoformat lib (replace_Z s) = Inr t" by simp
  from try_date_rejects[OF d this] es show ?thesis by simp
qed

lemma symptom_errors_date:
  assumes ret: "symptom_errors lib i c = Inr es"
    and bad: "\<nexists>s t. map_of c ''date'' = Some (PStr s) \<and> fromisoformat lib (replace_Z s) = Inr t"
  shows "''Symptom '' @ str_nat (i + 1) @ '': Missing required field: date'' \<in> set es
         \<or> ''Symptom '' @ str_nat (i + 1) @ '': Invalid date format'' \<in> set es"
proof (cases "map_of c ''date''")
  case None
  with ret show ?thesis
    by (auto simp: symptom_errors_def bind_Inr missing_field_def required_fields_symptom_analysis_def)
next
  case (Some v)
  from ret obtain ses des where
    d: "try_date lib v (''Symptom '' @ str_nat (i + 1) @ '': Invalid date format'') = Inr des"
    and es: "es = map (\<lambda>field. ''Symptom '' @ str_nat (i + 1) @ '': Missing required field: '' @ field)
            (filter (missing_field c) required_fields_symptom_analysis)
          @ (case map_of c ''type'' of
               None \<Rightarrow> []
             | Some v \<Rightarrow>
                 if v \<in> set (map PStr valid_symptom_types) then []
                 else [''Symptom '' @ str_nat (i + 1) @ '': Invalid symptom type: '' @ py_str lib v])
          @ ses @ des"
    unfolding symptom_errors_def bind_Inr Some by auto
  from bad Some have "\<nexists>s t. v = PStr s \<and> fromisoformat lib (replace_Z s) = Inr t" by simp
  from try_date_rejects[OF d this] es show ?thesis by simp
qed

lemma validate_cycle_input_errors:
  assumes ret: "validate_cycle_input lib data = Inr (ok, errors)" and i: "i < length data"
  shows "\<exists>es. cycle_errors lib i (data ! i) = Inr es \<and> set es \<subseteq> set errors
           \<and> (es \<noteq> [] \<longrightarrow> \<not> ok)"
proof -
  from i have ne: "data \<noteq> []" by auto
  with ret obtain per where
    tr: "traverse (\<lambda>(i, cycle). cycle_errors lib i cycle) (enumerate 0 data) = Inr per"
    and ok: "ok = (concat per = [])" and errors: "errors = concat per"
    by (auto simp: validate_cycle_input_def bind_Inr Let_def)
  from traverse_enumerate_nth[OF tr i]
  have n: "cycle_errors lib i (data ! i) = Inr (per ! i)" and len: "length per = length data"
    by simp_all
  from len i have "per ! i \<in> set per" by simp
  then have "set (per ! i) \<subseteq> set (concat per)" by auto
  moreover have "per ! i \<noteq> [] \<longrightarrow> concat per \<noteq> []"
    using \<open>per ! i \<in> set per\<close> by auto
  ultimately show ?thesis using n ok errors by auto
qed

lemma validate_symptom_input_errors:
  assumes ret: "validate_symptom_input lib data = Inr (ok, errors)" and i: "i < length data"
  shows "\<exists>es. symptom_errors lib i (data ! i) = Inr es \<and> set es \<subseteq> set errors
           \<and> (es \<noteq> [] \<longrightarrow> \<not> ok)"
proof -
  from i have ne: "data \<noteq> []" by auto
  with ret obtain per where
    tr: "traverse (\<lambda>(i, symptom). symptom_errors lib i symptom) (enumerate 0 data) = Inr per"
    and ok: "ok = (concat per = [])" and errors: "errors = concat per"
    by (auto simp: validate_symptom_input_def bind_Inr Let_def)
  from traverse_enumerate_nth[OF tr i]
  have n: "symptom_errors lib i (data ! i) = Inr (per ! i)" and len: "length per = length data"
    by simp_all
  from len i have "per ! i \<in> set per" by simp
  then have "set (per ! i) \<subseteq> set (concat per)" by auto
  moreover have "per ! i \<noteq> [] \<longrightarrow> concat per \<noteq> []"
    using \<open>per ! i \<in> set per\<close> by auto
  ultimately show ?thesis using n ok errors by auto
qed

lemma cycle_rejects:
  assumes ret: "validate_cycle_input lib data = Inr (ok, errors)" and i: "i < length data"
    and bad: "\<nexists>s t. map_of (data ! i) ''start_date'' = Some (PStr s)
                 \<and> fromisoformat lib (replace_Z s) = Inr t"
  shows "\<not> ok
        \<and> (''Cycle '' @ str_nat (i + 1) @ '': Missing required field: start_date'' \<in> set errors
           \<or> ''Cycle '' @ str_nat (i + 1) @ '': Invalid date format for start_date'' \<in> set errors)"
proof -
  from validate_cycle_input_errors[OF ret i] obtain es where
    es: "cycle_errors lib i (data ! i) = Inr es" "set es \<subseteq> set errors" "es \<noteq> [] \<longrightarrow> \<not> ok"
    by blast
  from cycle_errors_date[OF es(1) bad] es(2,3) show ?thesis by auto
qed

lemma symptom_rejects:
  assumes ret: "validate_symptom_input lib data = Inr (ok, errors)" and i: "i < length data"
    and bad: "\<nexists>s t. map_of (data ! i) ''date'' = Some (PStr s)
                 \<and> fromisoformat lib (replace_Z s) = Inr t"
  shows "\<not> ok
        \<and> (''Symptom '' @ str_nat (i + 1) @ '': Missing required field: date'' \<in> set errors
           \<or> ''Symptom '' @ str_nat (i + 1) @ '': Invalid date format'' \<in> set errors)"
proof -
  from validate_symptom_input_errors[OF ret i] obtain es where
    es: "symptom_errors lib i (data ! i) = Inr es" "set es \<subseteq> set errors" "es \<noteq> [] \<longrightarrow> \<not> ok"
    by blast
  from symptom_errors_date[OF es(1) bad] es(2,3) show ?thesis by auto
qed

lemma cycle_errors_returns:
  assumes d: "\<And>s e. map_of c ''start_date'' = Some (PStr s)
              \<Longrightarrow> fromisoformat lib (replace_Z s) = Inl e \<Longrightarrow> \<exists>m. e = ValueError m"
    and n: "\<And>v e. map_of c ''cycle_length'' = Some v \<Longrightarrow> py_int lib v = Inl e
              \<Longrightarrow> \<exists>m. e = ValueError m \<or> e = TypeError m"
  shows "\<exists>es. cycle_errors lib i c = Inr es"
proof -
  have 1: "\<exists>des. (case map_of c ''start_date'' of None \<Rightarrow> Inr []
           | Some v \<Rightarrow> try_date lib v (''Cycle '' @ str_nat (i + 1) @ '': Invalid date format for start_date'')) = Inr des"
  proof (cases "map_of c ''start_date''")
    case (Some v)
    with d have "\<And>s e. v = PStr s \<Longrightarrow> fromisoformat lib (replace_Z s) = Inl e \<Longrightarrow> \<exists>m. e = ValueError m"
      by simp
    from try_date_returns[OF this] Some show ?thesis by simp
  qed simp
  have 2: "\<exists>les. (case map_of c ''cycle_length'' of None \<Rightarrow> Inr [] | Some PNone \<Rightarrow> Inr []
           | Some v \<Rightarrow> try_number (py_int lib v) (\<lambda>len. 21 \<le> len \<and> len \<le> 45)
                 (''Cycle '' @ str_nat (i + 1) @ '': cycle_length must be between ''
                    @ str_int 21 @ '' and '' @ str_int 45)
                 (''Cycle '' @ str_nat (i + 1) @ '': cycle_length must be a valid integer'')) = Inr les"
  proof (cases "map_of c ''cycle_length''")
    case (Some v)
    with n have "\<And>e. py_int lib v = Inl e \<Longrightarrow> \<exists>m. e = ValueError m \<or> e = TypeError m" by simp
    from try_number_returns[OF this] Some show ?thesis by (cases v) simp_all
  qed simp
  from 1 2 show ?thesis unfolding cycle_errors_def bind_Inr by blast
qed

lemma symptom_errors_returns:
  assumes d: "\<And>s e. map_of c ''date'' = Some (PStr s)
              \<Longrightarrow> fromisoformat lib (replace_Z s) = Inl e \<Longrightarrow> \<exists>m. e = ValueError m"
    and n: "\<And>v e. map_of c ''severity'' = Some v \<Longrightarrow> py_float lib v = Inl e
              \<Longrightarrow> \<exists>m. e = ValueError m \<or> e = TypeError m"
  shows "\<exists>es. symptom_errors lib i c = Inr es"
proof -
  have 1: "\<exists>des. (case map_of c ''date'' of None \<Rightarrow> Inr []
           | Some v \<Rightarrow> try_date lib v (''Symptom '' @ str_nat (i + 1) @ '': Invalid date format'')) = Inr des"
  proof (cases "map_of c ''date''")
    case (Some v)
    with d have "\<And>s e. v = PStr s \<Longrightarrow> fromisoformat lib (replace_Z s) = Inl e \<Longrightarrow> \<exists>m. e = ValueError m"
      by simp
    from try_date_returns[OF this] Some show ?thesis by simp
  qed simp
  have 2: "\<exists>ses. (case map_of c ''severity'' of None \<Rightarrow> Inr [] | Some PNone \<Rightarrow> Inr []
           | Some v \<Rightarrow> try_number (py_float lib v) (between 1 10)
                 (''Symptom '' @ str_nat (i + 1) @ '': severity must be between ''
                    @ str_int 1 @ '' and '' @ str_int 10)
                 (''Symptom '' @ str_nat (i + 1) @ '': severity must be a valid number'')) = Inr ses"
  proof (cases "map_of c ''severity''")
    case (Some v)
    with n have "\<And>e. py_float lib v = Inl e \<Longrightarrow> \<exists>m. e = ValueError m \<or> e = TypeError m" by simp
    from try_number_returns[OF this] Some show ?thesis by (cases v) simp_all
  qed simp
  from 1 2 show ?thesis unfolding symptom_errors_def bind_Inr by blast
qed

lemma validate_cycle_input_returns:
  assumes "\<And>c. c \<in> set data \<Longrightarrow>
      (\<forall>s e. map_of c ''start_date'' = Some (PStr s) \<longrightarrow> fromisoformat lib (replace_Z s) = Inl e
         \<longrightarrow> (\<exists>m. e = ValueError m))
      \<and> (\<forall>v e. map_of c ''cycle_length'' = Some v \<longrightarrow> py_int lib v = Inl e
         \<longrightarrow> (\<exists>m. e = ValueError m \<or> e = TypeError m))"
  shows "\<exists>ok errors. validate_cycle_input lib data = Inr (ok, errors)"
proof -
  have "\<exists>y. (\<lambda>(i, cycle). cycle_errors lib i cycle) x = Inr y" if "x \<in> set (enumerate 0 data)" for x
  proof -
    obtain i c where x: "x = (i, c)" by (cases x)
    with that have "c \<in> set data" by (auto simp: in_set_enumerate_eq)
    from assms[OF this] have "\<exists>es. cycle_errors lib i c = Inr es"
      by (intro cycle_errors_returns) blast+
    with x show ?thesis by simp
  qed
  from traverse_returns[of "enumerate 0 data" "\<lambda>(i, cycle). cycle_errors lib i cycle", OF this]
  obtain per where "traverse (\<lambda>(i, cycle). cycle_errors lib i cycle) (enumerate 0 data) = Inr per"
    by blast
  then show ?thesis by (auto simp: validate_cycle_input_def bind_def Let_def)
qed

lemma validate_symptom_input_returns:
  assumes "\<And>c. c \<in> set data \<Longrightarrow>
      (\<forall>s e. map_of c ''date'' = Some (PStr s) \<longrightarrow> fromisoformat lib (replace_Z s) = Inl e
         \<longrightarrow> (\<exists>m. e = ValueError m))
      \<and> (\<forall>v e. map_of c ''severity'' = Some v \<longrightarrow> py_float lib v = Inl e
         \<longrightarrow> (\<exists>m. e = ValueError m \<or> e = TypeError m))"
  shows "\<exists>ok errors. validate_symptom_input lib data = Inr (ok, errors)"
proof -
  have "\<exists>y. (\<lambda>(i, symptom). symptom_errors lib i symptom) x = Inr y"
    if "x \<in> set (enumerate 0 data)" for x
  proof -
    obtain i c where x: "x = (i, c)" by (cases x)
    with that have "c \<in> set data" by (auto simp: in_set_enumerate_eq)
    from assms[OF this] have "\<exists>es. symptom_errors lib i c = Inr es"
      by (intro symptom_errors_returns) blast+
    with x show ?thesis by simp
  qed
  from traverse_returns[of "enumerate 0 data" "\<lambda>(i, symptom). symptom_errors lib i symptom", OF this]
  obtain per where
    "traverse (\<lambda>(i, symptom). symptom_errors lib i symptom) (enumerate 0 data) = Inr per"
    by blast
  then show ?thesis by (auto simp: validate_symptom_input_def bind_def Let_def)
qed

lemma concat_map_Nil: "concat (map (\<lambda>_. []) xs) = []"
  by (induction xs) simp_all

lemma cycle_errors_accepts:
  assumes "map_of c ''start_date'' = Some (PStr s)" and "fromisoformat lib (replace_Z s) = Inr t"
    and "map_of c ''cycle_length'' = Some (PInt n)" and "21 \<le> n" and "n \<le> 45"
  shows "cycle_errors lib i c = Inr []"
  using assms
  by (simp add: cycle_errors_def try_date_accepts try_number_def py_int_def bind_def
        missing_field_def required_fields_cycle_prediction_def)

lemma symptom_errors_accepts:
  assumes "map_of c ''date'' = Some (PStr s)" and "fromisoformat lib (replace_Z s) = Inr t"
    and "map_of c ''type'' = Some (PStr k)" and "k \<in> set valid_symptom_types"
    and "map_of c ''severity'' = Some (PInt n)" and "1 \<le> n" and "n \<le> 10"
  shows "symptom_errors lib i c = Inr []"
proof -
  from assms(6,7) have small: "\<not> 2 ^ 1024 - 2 ^ 970 \<le> \<bar>n\<bar>" by simp
  from assms(6,7) have f: "py_float lib (PInt n) = Inr (Num (of_int n))"
    unfolding py_float_def using small by simp
  from assms(4) have k: "PStr k \<in> set (map PStr valid_symptom_types)" by simp
  from assms(6,7) have b: "between 1 10 (Num (of_int n))" by (simp add: between_def)
  show ?thesis
    using assms(1,2,3,5) k b
    by (simp add: symptom_errors_def try_date_accepts try_number_def f bind_def
        missing_field_def required_fields_symptom_analysis_def del: set_map)
qed

lemma validate_cycle_input_accepts:
  assumes ne: "data \<noteq> []"
    and all: "\<And>c. c \<in> set data \<Longrightarrow> \<exists>s t n. map_of c ''start_date'' = Some (PStr s)
        \<and> fromisoformat lib (replace_Z s) = Inr t
        \<and> map_of c ''cycle_length'' = Some (PInt n) \<and> 21 \<le> n \<and> n \<le> 45"
  shows "validate_cycle_input lib data = Inr (True, [])"
proof -
  have "(\<lambda>(i, cycle). cycle_errors lib i cycle) x = Inr ((\<lambda>_. []) x)"
    if "x \<in> set (enumerate 0 data)" for x
  proof -
    obtain i c where x: "x = (i, c)" by (cases x)
    with that have "c \<in> set data" by (auto simp: in_set_enumerate_eq)
    from all[OF this] x show ?thesis by (auto simp: cycle_errors_accepts)
  qed
  from traverse_all_Inr[of "enumerate 0 data" "\<lambda>(i, cycle). cycle_errors lib i cycle" "\<lambda>_. []",
      OF this]
  have "traverse (\<lambda>(i, cycle). cycle_errors lib i cycle) (enumerate 0 data)
          = Inr (map (\<lambda>_. []) (enumerate 0 data))" .
  with ne show ?thesis
    by (simp add: validate_cycle_input_def bind_def Let_def concat_map_Nil)
qed

lemma validate_symptom_input_accepts:
  assumes ne: "data \<noteq> []"
    and all: "\<And>c. c \<in> set data \<Longrightarrow> \<exists>s t k n. map_of c ''date'' = Some (PStr s)
        \<and> fromisoformat lib (replace_Z s) = Inr t
        \<and> map_of c ''type'' = Some (PStr k) \<and> k \<in> set valid_symptom_types
        \<and> map_of c ''severity'' = Some (PInt n) \<and> 1 \<le> n \<and> n \<le> 10"
  shows "validate_symptom_input lib data = Inr (True, [])"
proof -
  have "(\<lambda>(i, symptom). symptom_errors lib i symptom) x = Inr ((\<lambda>_. []) x)"
    if "x \<in> set (enumerate 0 data)" for x
  proof -
    obtain i c where x: "x = (i, c)" by (cases x)
    with that have "c \<in> set data" by (auto simp: in_set_enumerate_eq)
    from all[OF this] x show ?thesis by (auto simp: symptom_errors_accepts)
  qed
  from traverse_all_Inr[of "enumerate 0 data" "\<lambda>(i, symptom). symptom_errors lib i symptom"
      "\<lambda>_. []", OF this]
  have "traverse (\<lambda>(i, symptom). symptom_errors lib i symptom) (enumerate 0 data)
          = Inr (map (\<lambda>_. []) (enumerate 0 data))" .
  with ne show ?thesis
    by (simp add: validate_symptom_input_def bind_def Let_def concat_map_Nil)
qed

lemma iso_not_a_date: "iso_date ''not-a-date'' = Inl (invalid_isoformat ''not-a-date'')"
  by (simp add: digit_val_def)

lemma iso_2999:
  "iso_date ''2999-01-01'' = Inr (mk_date 2999 1 1)"
  "iso_date ''2999-02-01'' = Inr (mk_date 2999 2 1)"
  by (simp_all add: date_defs)

lemma sample_lib_fields:
  "fromisoformat sample_lib = iso_date"
  "int_of_str sample_lib = plain_number"
  by (simp_all add: sample_lib_def)

text \<open>
  Claim C10, as amended. For cycle records and for symptom records alike:

  \<^item> a validation that returns fails, with an error naming the record and its date field,
    whenever the date field of a record is not a string that \<^verbatim>\<open>fromisoformat\<close> reads
    (after \<open>Z\<close> is replaced by \<open>+00:00\<close>): the key is absent, the value is not a string,
    or the string does not parse;
  \<^item> the validation does return when \<^verbatim>\<open>fromisoformat\<close> raises nothing but \<^verbatim>\<open>ValueError\<close> on
    the date strings and the conversion of each number raises nothing but \<^verbatim>\<open>ValueError\<close>
    or \<^verbatim>\<open>TypeError\<close>;
  \<^item> how far a date lies in the future plays no part: a non-empty list of records whose
    dates parse, to any timestamp whatever, and whose other fields are in range is
    accepted with no error.
\<close>

theorem C10_unparseable_date_fails_validation:
  "(validate_cycle_input lib cycles = Inr (ok, errors) \<and> i < length cycles
      \<and> (\<nexists>s t. map_of (cycles ! i) ''start_date'' = Some (PStr s)
                 \<and> fromisoformat lib (replace_Z s) = Inr t)
    \<longrightarrow> \<not> ok
        \<and> (''Cycle '' @ str_nat (i + 1) @ '': Missing required field: start_date'' \<in> set errors
           \<or> ''Cycle '' @ str_nat (i + 1) @ '': Invalid date format for start_date''
               \<in> set errors))
   \<and> (validate_symptom_input lib symptoms = Inr (ok, errors) \<and> i < length symptoms
      \<and> (\<nexists>s t. map_of (symptoms ! i) ''date'' = Some (PStr s)
                 \<and> fromisoformat lib (replace_Z s) = Inr t)
    \<longrightarrow> \<not> ok
        \<and> (''Symptom '' @ str_nat (i + 1) @ '': Missing required field: date'' \<in> set errors
           \<or> ''Symptom '' @ str_nat (i + 1) @ '': Invalid date format'' \<in> set errors))
   \<and> ((\<forall>c \<in> set cycles.
          (\<forall>s e. map_of c ''start_date'' = Some (PStr s)
             \<longrightarrow> fromisoformat lib (replace_Z s) = Inl e \<longrightarrow> (\<exists>m. e = ValueError m))
          \<and> (\<forall>v e. map_of c ''cycle_length'' = Some v \<longrightarrow> py_int lib v = Inl e
             \<longrightarrow> (\<exists>m. e = ValueError m \<or> e = TypeError m)))
    \<longrightarrow> (\<exists>ok errors. validate_cycle_input lib cycles = Inr (ok, errors)))
   \<and> ((\<forall>c \<in> set symptoms.
          (\<forall>s e. map_of c ''date'' = Some (PStr s)
             \<longrightarrow> fromisoformat lib (replace_Z s) = Inl e \<longrightarrow> (\<exists>m. e = ValueError m))
          \<and> (\<forall>v e. map_of c ''severity'' = Some v \<longrightarrow> py_float lib v = Inl e
             \<longrightarrow> (\<exists>m. e = ValueError m \<or> e = TypeError m)))
    \<longrightarrow> (\<exists>ok errors. validate_symptom_input lib symptoms = Inr (ok, errors)))
   \<and> (cycles \<noteq> []
      \<and> (\<forall>c \<in> set cycles. \<exists>s t n. map_of c ''start_date'' = Some (PStr s)
            \<and> fromisoformat lib (replace_Z s) = Inr t
            \<and> map_of c ''cycle_length'' = Some (PInt n) \<and> 21 \<le> n \<and> n \<le> 45)
    \<longrightarrow> validate_cycle_input lib cycles = Inr (True, []))
   \<and> (symptoms \<noteq> []
      \<and> (\<forall>c \<in> set symptoms. \<exists>s t k n. map_of c ''date'' = Some (PStr s)
            \<and> fromisoformat lib (replace_Z s) = Inr t
            \<and> map_of c ''type'' = Some (PStr k) \<and> k \<in> set valid_symptom_types
            \<and> map_of c ''severity'' = Some (PInt n) \<and> 1 \<le> n \<and> n \<le> 10)
    \<longrightarrow> validate_symptom_input lib symptoms = Inr (True, []))"
proof (intro conjI impI)
  assume "validate_cycle_input lib cycles = Inr (ok, errors) \<and> i < length cycles
      \<and> (\<nexists>s t. map_of (cycles ! i) ''start_date'' = Some (PStr s)
                 \<and> fromisoformat lib (replace_Z s) = Inr t)"
  then have r: "\<not> ok
        \<and> (''Cycle '' @ str_nat (i + 1) @ '': Missing required field: start_date'' \<in> set errors
           \<or> ''Cycle '' @ str_nat (i + 1) @ '': Invalid date format for start_date''
               \<in> set errors)"
    using cycle_rejects[of lib cycles ok errors i] by blast
  from r show "\<not> ok" ..
  from r show "''Cycle '' @ str_nat (i + 1) @ '': Missing required field: start_date'' \<in> set errors
           \<or> ''Cycle '' @ str_nat (i + 1) @ '': Invalid date format for start_date''
               \<in> set errors" ..
next
  assume "validate_symptom_input lib symptoms = Inr (ok, errors) \<and> i < length symptoms
      \<and> (\<nexists>s t. map_of (symptoms ! i) ''date'' = Some (PStr s)
                 \<and> fromisoformat lib (replace_Z s) = Inr t)"
  then have r: "\<not> ok
        \<and> (''Symptom '' @ str_nat (i + 1) @ '': Missing required field: date'' \<in> set errors
           \<or> ''Symptom '' @ str_nat (i + 1) @ '': Invalid date format'' \<in> set errors)"
    using symptom_rejects[of lib symptoms ok errors i] by blast
  from r show "\<not> ok" ..
  from r show "''Symptom '' @ str_nat (i + 1) @ '': Missing required field: date'' \<in> set errors
           \<or> ''Symptom '' @ str_nat (i + 1) @ '': Invalid date format'' \<in> set errors" ..
next
  assume "\<forall>c \<in> set cycles.
          (\<forall>s e. map_of c ''start_date'' = Some (PStr s)
             \<longrightarrow> fromisoformat lib (replace_Z s) = Inl e \<longrightarrow> (\<exists>m. e = ValueError m))
          \<and> (\<forall>v e. map_of c ''cycle_length'' = Some v \<longrightarrow> py_int lib v = Inl e
             \<longrightarrow> (\<exists>m. e = ValueError m \<or> e = TypeError m))"
  then show "\<exists>ok errors. validate_cycle_input lib cycles = Inr (ok, errors)"
    by (intro validate_cycle_input_returns) blast
next
  assume "\<forall>c \<in> set symptoms.
          (\<forall>s e. map_of c ''date'' = Some (PStr s)
             \<longrightarrow> fromisoformat lib (replace_Z s) = Inl e \<longrightarrow> (\<exists>m. e = ValueError m))
          \<and> (\<forall>v e. map_of c ''severity'' = Some v \<longrightarrow> py_float lib v = Inl e
             \<longrightarrow> (\<exists>m. e = ValueError m \<or> e = TypeError m))"
  then show "\<exists>ok errors. validate_symptom_input lib symptoms = Inr (ok, errors)"
    by (intro validate_symptom_input_returns) blast
next
  assume "cycles \<noteq> []
      \<and> (\<forall>c \<in> set cycles. \<exists>s t n. map_of c ''start_date'' = Some (PStr s)
            \<and> fromisoformat lib (replace_Z s) = Inr t
            \<and> map_of c ''cycle_length'' = Some (PInt n) \<and> 21 \<le> n \<and> n \<le> 45)"
  then show "validate_cycle_input lib cycles = Inr (True, [])"
    by (intro validate_cycle_input_accepts) blast+
next
  assume "symptoms \<noteq> []
      \<and> (\<forall>c \<in> set symptoms. \<exists>s t k n. map_of c ''date'' = Some (PStr s)
            \<and> fromisoformat lib (replace_Z s) = Inr t
            \<and> map_of c ''type'' = Some (PStr k) \<and> k \<in> set valid_symptom_types
            \<and> map_of c ''severity'' = Some (PInt n) \<and> 1 \<le> n \<and> n \<le> 10)"
  then show "validate_symptom_input lib symptoms = Inr (True, [])"
    by (intro validate_symptom_input_accepts) blast+
qed


text \<open>
  Witness: a cycle record and a symptom record whose date is the string \<open>not-a-date\<close>
  are rejected, and the same records dated 2999-01-01 are accepted.
\<close>

theorem C10_witness:
  "validate_cycle_input sample_lib
     [[(''start_date'', PStr ''not-a-date''), (''cycle_length'', PInt 28)]]
     = Inr (False, [''Cycle 1: Invalid date format for start_date''])
   \<and> validate_symptom_input sample_lib
     [[(''type'', PStr ''cramps''), (''severity'', PInt 7), (''date'', PStr ''not-a-date'')]]
     = Inr (False, [''Symptom 1: Invalid date format''])
   \<and> validate_cycle_input sample_lib
     [[(''start_date'', PStr ''2999-01-01''), (''cycle_length'', PInt 28)]] = Inr (True, [])
   \<and> validate_symptom_input sample_lib
     [[(''type'', PStr ''cramps''), (''severity'', PInt 7), (''date'', PStr ''2999-01-01'')]]
     = Inr (True, [])"
proof -
  let ?c = "[[(''start_date'', PStr ''not-a-date''), (''cycle_length'', PInt 28)]]"
  let ?s = "[[(''type'', PStr ''cramps''), (''severity'', PInt 7), (''date'', PStr ''not-a-date'')]]"
  let ?fc = "[[(''start_date'', PStr ''2999-01-01''), (''cycle_length'', PInt 28)]]"
  let ?fs = "[[(''type'', PStr ''cramps''), (''severity'', PInt 7), (''date'', PStr ''2999-01-01'')]]"
  have c: "validate_cycle_input sample_lib ?c
             = Inr (False, [''Cycle 1: Invalid date format for start_date''])"
    by (simp add: validate_cycle_input_def cycle_errors_def enumerate_eq_zip missing_field_def
          required_fields_cycle_prediction_def try_date_def parse_date_def try_number_def
          sample_lib_fields replace_Z_def iso_not_a_date invalid_isoformat_def bind_def
          py_int_def str_nat_1 del: iso_date.simps)
  have s: "validate_symptom_input sample_lib ?s = Inr (False, [''Symptom 1: Invalid date format''])"
    by (simp add: validate_symptom_input_def symptom_errors_def enumerate_eq_zip missing_field_def
          required_fields_symptom_analysis_def try_date_def parse_date_def try_number_def
          sample_lib_fields replace_Z_def iso_not_a_date invalid_isoformat_def bind_def
          py_float_def between_def str_nat_1 valid_symptom_types_def del: iso_date.simps)
  note thm_c = C10_unparseable_date_fails_validation[where lib = sample_lib and cycles = ?c
      and symptoms = ?s and i = 0 and ok = False]
  have rc: "\<exists>ok errors. validate_cycle_input sample_lib ?c = Inr (ok, errors)"
    using thm_c[where errors = "[]"]
    by (simp add: sample_lib_fields replace_Z_def iso_not_a_date invalid_isoformat_def py_int_def
          del: iso_date.simps)
  have rs: "\<exists>ok errors. validate_symptom_input sample_lib ?s = Inr (ok, errors)"
    using thm_c[where errors = "[]"]
    by (simp add: sample_lib_fields replace_Z_def iso_not_a_date invalid_isoformat_def py_float_def
          del: iso_date.simps)
  have jc: "''Cycle '' @ str_nat (0 + 1) @ '': Missing required field: start_date''
               \<in> set [''Cycle 1: Invalid date format for start_date'']
           \<or> ''Cycle '' @ str_nat (0 + 1) @ '': Invalid date format for start_date''
               \<in> set [''Cycle 1: Invalid date format for start_date'']"
    using thm_c[where errors = "[''Cycle 1: Invalid date format for start_date'']"] c
    by (simp add: sample_lib_fields replace_Z_def iso_not_a_date del: iso_date.simps)
  have js: "''Symptom '' @ str_nat (0 + 1) @ '': Missing required field: date''
               \<in> set [''Symptom 1: Invalid date format'']
           \<or> ''Symptom '' @ str_nat (0 + 1) @ '': Invalid date format''
               \<in> set [''Symptom 1: Invalid date format'']"
    using thm_c[where errors = "[''Symptom 1: Invalid date format'']"] s
    by (simp add: sample_lib_fields replace_Z_def iso_not_a_date del: iso_date.simps)
  note thm_f = C10_unparseable_date_fails_validation[where lib = sample_lib and cycles = ?fc
      and symptoms = ?fs]
  have fc: "validate_cycle_input sample_lib ?fc = Inr (True, [])"
    using thm_f
    by (simp add: sample_lib_fields replace_Z_def iso_2999 del: iso_date.simps)
  have fs: "validate_symptom_input sample_lib ?fs = Inr (True, [])"
    using thm_f
    by (simp add: sample_lib_fields replace_Z_def iso_2999 valid_symptom_types_def
          del: iso_date.simps)
  from c s fc fs rc rs jc js show ?thesis by simp
qed

text \<open>
  The claim as stated fails: records dated 2999-01-01, centuries after the current date
  2026-11-03, pass both validators. Only \<^verbatim>\<open>validate_date_range\<close> looks at the clock.
\<close>

theorem C10_counterexample:
  "validate_cycle_input sample_lib
     [[(''start_date'', PStr ''2999-01-01''), (''cycle_length'', PInt 28)]] = Inr (True, [])
   \<and> validate_symptom_input sample_lib
     [[(''type'', PStr ''cramps''), (''severity'', PInt 7), (''date'', PStr ''2999-01-01'')]]
     = Inr (True, [])
   \<and> iso_date ''2999-01-01'' = Inr (mk_date 2999 1 1)
   \<and> mk_date 2999 1 1 > mk_date 2026 11 3 + timedelta 30
   \<and> validate_date_range sample_lib (mk_date 2026 11 3) ''2999-01-01'' ''2999-02-01'' 365
       = Inr (False, ''Start date cannot be more than 30 days in the future'')"
proof -
  have c: "validate_cycle_input sample_lib
     [[(''start_date'', PStr ''2999-01-01''), (''cycle_length'', PInt 28)]] = Inr (True, [])"
    by (simp add: validate_cycle_input_def cycle_errors_def enumerate_eq_zip missing_field_def
          required_fields_cycle_prediction_def try_date_def parse_date_def try_number_def
          sample_lib_fields replace_Z_def iso_2999 bind_def py_int_def del: iso_date.simps)
  have s: "validate_symptom_input sample_lib
     [[(''type'', PStr ''cramps''), (''severity'', PInt 7), (''date'', PStr ''2999-01-01'')]]
     = Inr (True, [])"
    by (simp add: validate_symptom_input_def symptom_errors_def enumerate_eq_zip missing_field_def
          required_fields_symptom_analysis_def try_date_def parse_date_def try_number_def
          sample_lib_fields replace_Z_def iso_2999 bind_def py_float_def between_def
          valid_symptom_types_def del: iso_date.simps)
  have f: "mk_date 2999 1 1 > mk_date 2026 11 3 + timedelta 30"
    by (simp add: date_defs)
  have r: "validate_date_range sample_lib (mk_date 2026 11 3) ''2999-01-01'' ''2999-02-01'' 365
       = Inr (False, ''Start date cannot be more than 30 days in the future'')"
    by (simp add: validate_date_range_def sample_lib_fields replace_Z_def iso_2999 bind_def
          del: iso_date.simps)
       (simp add: date_defs)
  from c s iso_2999(1) f r show ?thesis by simp
qed

text \<open>
  An exception that the handlers do not name ends the call: a severity of \<open>2^1024\<close>
  (\<^verbatim>\<open>float\<close> overflows) and a cycle length of infinity (\<^verbatim>\<open>int\<close> overflows).
\<close>

lemma validators_let_OverflowError_through:
  "validate_symptom_input sample_lib
     [[(''type'', PStr ''cramps''), (''severity'', PInt (2 ^ 1024)), (''date'', PStr ''2999-01-01'')]]
     = Inl (OverflowError ''int too large to convert to float'')"
  "validate_cycle_input sample_lib
     [[(''start_date'', PStr ''2999-01-01''), (''cycle_length'', PFloat PlusInf)]]
     = Inl (OverflowError ''cannot convert float infinity to integer'')"
proof -
  have big: "(2::int) ^ 1024 - 2 ^ 970 \<le> \<bar>2 ^ 1024\<bar>" by simp
  have "py_float sample_lib (PInt (2 ^ 1024)) = Inl (OverflowError ''int too large to convert to float'')"
    unfolding py_float_def using big by simp
  then show "validate_symptom_input sample_lib
     [[(''type'', PStr ''cramps''), (''severity'', PInt (2 ^ 1024)), (''date'', PStr ''2999-01-01'')]]
     = Inl (OverflowError ''int too large to convert to float'')"
    by (simp add: validate_symptom_input_def symptom_errors_def enumerate_eq_zip
          try_number_def bind_def)
  show "validate_cycle_input sample_lib
     [[(''start_date'', PStr ''2999-01-01''), (''cycle_length'', PFloat PlusInf)]]
     = Inl (OverflowError ''cannot convert float infinity to integer'')"
    by (simp add: validate_cycle_input_def cycle_errors_def enumerate_eq_zip
          try_date_def parse_date_def try_number_def
          sample_lib_fields replace_Z_def iso_2999 bind_def py_int_def del: iso_date.simps)
qed

end
